theory Spec2Isabelle
  imports Main "HOL-Library.Code_Target_Numeral"
begin

section \<open>Python values used by mkv\_to\_web.py\<close>

text \<open>
  A Python float is described by sign, mantissa and binary exponent (the value
  \<open>(-1)^s * m * 2^e\<close>), or is an infinity or a NaN. Only its sign and whether it is
  zero are inspected by the script; how it prints is the interpreter's business.
\<close>

datatype pyfloat = FFinite bool nat int | FInf bool | FNaN

datatype pynum = PyInt int | PyFloat pyfloat

text \<open>\<^verbatim>\<open>x > 0\<close> on a number.\<close>

fun num_gt0 :: "pynum \<Rightarrow> bool" where
  "num_gt0 (PyInt n) = (0 < n)"
| "num_gt0 (PyFloat (FFinite s m e)) = (\<not> s \<and> 0 < m)"
| "num_gt0 (PyFloat (FInf s)) = (\<not> s)"
| "num_gt0 (PyFloat FNaN) = False"

text \<open>Truth value of a number in \<^verbatim>\<open>if x:\<close> (zero of either sign is false, NaN is true).\<close>

fun num_truthy :: "pynum \<Rightarrow> bool" where
  "num_truthy (PyInt n) = (n \<noteq> 0)"
| "num_truthy (PyFloat (FFinite s m e)) = (m \<noteq> 0)"
| "num_truthy (PyFloat (FInf s)) = True"
| "num_truthy (PyFloat FNaN) = True"

text \<open>Truth value of an optional value: \<^verbatim>\<open>None\<close> is false.\<close>

definition opt_truthy :: "('a \<Rightarrow> bool) \<Rightarrow> 'a option \<Rightarrow> bool" where
  "opt_truthy t v = (case v of None \<Rightarrow> False | Some x \<Rightarrow> t x)"

definition int_truthy :: "int \<Rightarrow> bool" where
  "int_truthy n = (n \<noteq> 0)"

definition str_truthy :: "string \<Rightarrow> bool" where
  "str_truthy s = (s \<noteq> [])"

subsection \<open>\<^verbatim>\<open>str\<close> of an integer\<close>

definition digit_char :: "nat \<Rightarrow> char" where
  "digit_char d = ''0123456789'' ! d"

fun str_nat :: "nat \<Rightarrow> string" where
  "str_nat n = (if n < 10 then [digit_char n] else str_nat (n div 10) @ [digit_char (n mod 10)])"

declare str_nat.simps [simp del]

definition str_int :: "int \<Rightarrow> string" where
  "str_int i = (if i < 0 then CHR ''-'' # str_nat (nat (- i)) else str_nat (nat i))"

text \<open>
  \<^verbatim>\<open>str\<close> of a number. The decimal text of a float (the shortest text that reads
  back as the same float) is computed by the interpreter; it is the parameter \<open>fstr\<close>.
\<close>

fun str_num :: "(pyfloat \<Rightarrow> string) \<Rightarrow> pynum \<Rightarrow> string" where
  "str_num fstr (PyInt n) = str_int n"
| "str_num fstr (PyFloat f) = fstr f"

text \<open>\<^verbatim>\<open>sep.join(xs)\<close>\<close>

fun join_str :: "string \<Rightarrow> string list \<Rightarrow> string" where
  "join_str sep [] = []"
| "join_str sep [x] = x"
| "join_str sep (x # y # ys) = x @ sep @ join_str sep (y # ys)"

section \<open>Paths: \<^verbatim>\<open>os.path.splitext\<close> and \<^verbatim>\<open>os.path.join\<close> (POSIX)\<close>

text \<open>\<^verbatim>\<open>p.rfind(c)\<close>: the index of the last occurrence of \<open>c\<close>, or \<open>-1\<close>.\<close>

fun rfind_from :: "char \<Rightarrow> string \<Rightarrow> nat \<Rightarrow> int \<Rightarrow> int" where
  "rfind_from c [] i acc = acc"
| "rfind_from c (x # xs) i acc = rfind_from c xs (Suc i) (if x = c then int i else acc)"

definition rfind :: "char \<Rightarrow> string \<Rightarrow> int" where
  "rfind c p = rfind_from c p 0 (- 1)"

text \<open>
  The loop of \<^verbatim>\<open>genericpath._splitext\<close> that skips the leading dots of the file name:
  \<^verbatim>\<open>
    while filenameIndex < dotIndex:
        if p[filenameIndex:filenameIndex+1] != extsep:
            return p[:dotIndex], p[dotIndex:]
        filenameIndex += 1
  \<close>
  It answers whether a character other than a dot stands before the last dot.
\<close>

function nondot_before :: "string \<Rightarrow> nat \<Rightarrow> nat \<Rightarrow> bool" where
  "nondot_before p filenameIndex dotIndex =
     (if filenameIndex < dotIndex
      then (if take 1 (drop filenameIndex p) \<noteq> ''.'' then True
            else nondot_before p (Suc filenameIndex) dotIndex)
      else False)"
  by pat_completeness auto
termination
  by (relation "measure (\<lambda>(p, i, d). d - i)") auto

declare nondot_before.simps [simp del]

definition splitext :: "string \<Rightarrow> string \<times> string" where
  "splitext p =
     (let sepIndex = rfind CHR ''/'' p;
          dotIndex = rfind CHR ''.'' p
      in if dotIndex > sepIndex \<and> nondot_before p (nat (sepIndex + 1)) (nat dotIndex)
         then (take (nat dotIndex) p, drop (nat dotIndex) p)
         else (p, []))"

text \<open>\<^verbatim>\<open>posixpath.join(a, b)\<close> for two components.\<close>

definition path_join :: "string \<Rightarrow> string \<Rightarrow> string" where
  "path_join a b =
     (if take 1 b = ''/'' then b
      else if a = [] \<or> last a = CHR ''/'' then a @ b
      else a @ ''/'' @ b)"

section \<open>The conversion options and the ffmpeg command\<close>

text \<open>The keyword parameters of \<^verbatim>\<open>convert_mkv_to_webp\<close>.\<close>

record options =
  start_time :: pynum
  duration :: "pynum option"
  fps :: int
  width :: "int option"
  height :: "int option"
  quality :: int
  lossless :: bool
  loop :: bool
  verbose :: bool

text \<open>
  The list \<^verbatim>\<open>filters\<close> of \<^verbatim>\<open>convert_mkv_to_webp\<close> (the \<^verbatim>\<open>if width and height\<close> chain).
\<close>

definition convert_filters :: "int option \<Rightarrow> int option \<Rightarrow> string list" where
  "convert_filters w h =
     (if opt_truthy int_truthy w \<and> opt_truthy int_truthy h
        then [''scale='' @ str_int (the w) @ '':'' @ str_int (the h)]
      else if opt_truthy int_truthy w
        then [''scale='' @ str_int (the w) @ '':-1'']
      else if opt_truthy int_truthy h
        then [''scale=-1:'' @ str_int (the h)]
      else [])"

text \<open>
  The list \<^verbatim>\<open>cmd\<close> that \<^verbatim>\<open>convert_mkv_to_webp\<close> builds, one \<^verbatim>\<open>cmd.extend\<close> after the
  other, in the order of the statements of the source.
\<close>

definition convert_cmd :: "(pyfloat \<Rightarrow> string) \<Rightarrow> string \<Rightarrow> string \<Rightarrow> options \<Rightarrow> string list" where
  "convert_cmd fstr input_file output_file opts =
     (let cmd = [''ffmpeg''];
          cmd = cmd @ [''-i'', input_file];
          cmd = (if num_gt0 (start_time opts)
                 then cmd @ [''-ss'', str_num fstr (start_time opts)] else cmd);
          cmd = (if opt_truthy num_truthy (duration opts)
                 then cmd @ [''-t'', str_num fstr (the (duration opts))] else cmd);
          filters = convert_filters (width opts) (height opts);
          cmd = cmd @ [''-r'', str_int (fps opts)];
          cmd = (if filters \<noteq> [] then cmd @ [''-vf'', join_str '','' filters] else cmd);
          cmd = (if lossless opts then cmd @ [''-lossless'', ''1'']
                 else cmd @ [''-quality'', str_int (quality opts)]);
          cmd = (if loop opts then cmd @ [''-loop'', ''0''] else cmd);
          cmd = cmd @ [''-y'', output_file];
          cmd = (if \<not> verbose opts then cmd @ [''-loglevel'', ''error''] else cmd)
      in cmd)"

text \<open>The output name derived when none is given (\<^verbatim>\<open>base_name\<close> plus the suffix).\<close>

definition derive_output :: "string \<Rightarrow> string" where
  "derive_output input_file =
     (let base_name = fst (splitext input_file) in base_name @ ''_algorithm_viz.webp'')"

text \<open>The \<^verbatim>\<open>output_name\<close> of \<^verbatim>\<open>batch_convert\<close> for one directory entry.\<close>

definition batch_output_name :: "string \<Rightarrow> string" where
  "batch_output_name mkv_file = fst (splitext mkv_file) @ ''_algorithm_viz.webp''"

section \<open>The outside world: file system, processes, console\<close>

text \<open>
  The exceptions that the handlers of the script tell apart, and those the modelled
  library calls raise. \<open>KeyboardInterrupt\<close> is not an \<^verbatim>\<open>Exception\<close>:
  \<^verbatim>\<open>except Exception\<close> lets it through.
\<close>

datatype exn =
    FileNotFoundError | NotADirectoryError | FileExistsError | PermissionError
  | KeyboardInterrupt | JSONDecodeError | ValueError | TypeError | AttributeError
  | OverflowError | ZeroDivisionError

definition is_Exception :: "exn \<Rightarrow> bool" where
  "is_Exception e = (e \<noteq> KeyboardInterrupt)"

text \<open>A path names a file of some size in bytes, or a directory with its entry names.\<close>

datatype node = File nat | Dir nat "string list"

type_synonym filesystem = "string \<rightharpoonup> node"

text \<open>Values that \<^verbatim>\<open>json.loads\<close> returns; an object is its list of members.\<close>

datatype json =
    JNull | JBool bool | JNum pynum | JStr string
  | JArr "json list" | JObj "(string \<times> json) list"

text \<open>
  What \<^verbatim>\<open>eval\<close> gives on the expressions that are modelled: an integer, or the
  double nearest to the quotient \<open>n / d\<close> of two integers.
\<close>

datatype evalue = EInt int | EQuot int int

text \<open>
  One constructor for each \<^verbatim>\<open>print\<close> call of the script, with the values it
  formats. The two fixed blocks of text (installation hints, usage examples) are
  numbered by line.
\<close>

datatype msg =
    FFmpegNotFound | InstallHint nat
  | InputNotFound string | Converting string string | Running "string list"
  | ConversionSuccessful | OutputPath string | OutputSize nat
  | OutputNotCreated | FFmpegError | Stderr string | ErrorRunning exn
  | VideoInfoHeader | InfoDuration pyfloat | InfoResolution json json | InfoFrameRate evalue
  | CouldNotGetInfo exn
  | DirectoryNotFound string | NoMkvFiles | FoundFiles nat | ItemHeader string
  | Converted nat nat
  | InfoNeedsFile | Analyzing | BlankLine
  | CompressionHeader | OriginalSize nat | WebpSize nat | Saved nat nat
  | Cancelled | TopLevelError exn
  | Banner | BannerRule | UsageLine nat

text \<open>
  The state the script acts on: the file system, every argument list handed to
  \<^verbatim>\<open>subprocess.run\<close> so far, and every line printed so far.
\<close>

record world =
  fs :: filesystem
  launched :: "string list list"
  printed :: "msg list"

text \<open>\<^verbatim>\<open>subprocess.run\<close> returns exit code, captured stdout and stderr, or raises.\<close>

datatype proc = Completed int string string | Raised exn

text \<open>
  What the script does not decide is a parameter: how an external program behaves
  on a command in a given world (its result and the file system it leaves),
  \<^verbatim>\<open>os.makedirs\<close>, the decimal text of a float, \<^verbatim>\<open>json.loads\<close>, \<^verbatim>\<open>float\<close> of a
  string, and \<^verbatim>\<open>str.lower\<close>, which follows the Unicode tables of the interpreter.
  Texts are byte strings (UTF-8 for what is not ASCII); the characters that the script
  itself looks for (the slash, the dot, the extension) are ASCII.
\<close>

record runtime =
  run_process :: "world \<Rightarrow> string list \<Rightarrow> proc \<times> filesystem"
  makedirs :: "filesystem \<Rightarrow> string \<Rightarrow> exn + filesystem"
  float_str :: "pyfloat \<Rightarrow> string"
  json_loads :: "string \<Rightarrow> exn + json"
  float_of_str :: "string \<Rightarrow> pyfloat option"
  str_lower :: "string \<Rightarrow> string"

definition print :: "msg \<Rightarrow> world \<Rightarrow> world" where
  "print m w = w\<lparr>printed := printed w @ [m]\<rparr>"

definition prints :: "msg list \<Rightarrow> world \<Rightarrow> world" where
  "prints ms w = w\<lparr>printed := printed w @ ms\<rparr>"

definition subprocess_run :: "runtime \<Rightarrow> string list \<Rightarrow> world \<Rightarrow> proc \<times> world" where
  "subprocess_run rt cmd w =
     (let w1 = w\<lparr>launched := launched w @ [cmd]\<rparr>;
          (p, fs') = run_process rt w1 cmd
      in (p, w1\<lparr>fs := fs'\<rparr>))"

definition path_exists :: "world \<Rightarrow> string \<Rightarrow> bool" where
  "path_exists w p = (fs w p \<noteq> None)"

definition isfile :: "world \<Rightarrow> string \<Rightarrow> bool" where
  "isfile w p = (case fs w p of Some (File n) \<Rightarrow> True | _ \<Rightarrow> False)"

definition isdir :: "world \<Rightarrow> string \<Rightarrow> bool" where
  "isdir w p = (case fs w p of Some (Dir n es) \<Rightarrow> True | _ \<Rightarrow> False)"

definition getsize :: "world \<Rightarrow> string \<Rightarrow> exn + nat" where
  "getsize w p =
     (case fs w p of None \<Rightarrow> Inl FileNotFoundError
      | Some (File n) \<Rightarrow> Inr n | Some (Dir n es) \<Rightarrow> Inr n)"

definition listdir :: "world \<Rightarrow> string \<Rightarrow> exn + string list" where
  "listdir w p =
     (case fs w p of None \<Rightarrow> Inl FileNotFoundError
      | Some (File n) \<Rightarrow> Inl NotADirectoryError | Some (Dir n es) \<Rightarrow> Inr es)"

text \<open>
  \<^verbatim>\<open>str.endswith\<close>, and what \<^verbatim>\<open>str.lower\<close> does to a text that is all ASCII (the
  lower-casing used by the example environments).
\<close>

definition ascii_lower_char :: "char \<Rightarrow> char" where
  "ascii_lower_char c =
     (case map_of (zip ''ABCDEFGHIJKLMNOPQRSTUVWXYZ'' ''abcdefghijklmnopqrstuvwxyz'') c of
        None \<Rightarrow> c | Some l \<Rightarrow> l)"

definition ascii_lower :: "string \<Rightarrow> string" where
  "ascii_lower s = map ascii_lower_char s"

definition endswith :: "string \<Rightarrow> string \<Rightarrow> bool" where
  "endswith s suf = (length suf \<le> length s \<and> drop (length s - length suf) s = suf)"

section \<open>\<^verbatim>\<open>check_ffmpeg\<close> and \<^verbatim>\<open>install_ffmpeg_suggestion\<close>\<close>

text \<open>
  \<^verbatim>\<open>check_ffmpeg\<close> catches \<^verbatim>\<open>FileNotFoundError\<close> only; any other exception of
  \<^verbatim>\<open>subprocess.run\<close> leaves the function.
\<close>

definition check_ffmpeg :: "runtime \<Rightarrow> world \<Rightarrow> (exn + bool) \<times> world" where
  "check_ffmpeg rt w =
     (case subprocess_run rt [''ffmpeg'', ''-version''] w of
        (Completed returncode out err, w1) \<Rightarrow> (Inr (returncode = 0), w1)
      | (Raised e, w1) \<Rightarrow> (if e = FileNotFoundError then (Inr False, w1) else (Inl e, w1)))"

definition install_ffmpeg_suggestion :: "world \<Rightarrow> world" where
  "install_ffmpeg_suggestion w =
     prints [InstallHint 0, InstallHint 1, InstallHint 2, InstallHint 3, InstallHint 4] w"

section \<open>\<^verbatim>\<open>convert_mkv_to_webp\<close>\<close>

text \<open>The handler \<^verbatim>\<open>except Exception as e\<close> of the \<^verbatim>\<open>try\<close> block.\<close>

definition convert_except :: "exn \<Rightarrow> world \<Rightarrow> (exn + string option) \<times> world" where
  "convert_except e w =
     (if is_Exception e then (Inr None, print (ErrorRunning e) w) else (Inl e, w))"

text \<open>The \<^verbatim>\<open>try\<close> block: run the command, then look at exit code and output file.\<close>

definition run_conversion ::
  "runtime \<Rightarrow> string list \<Rightarrow> string \<Rightarrow> world \<Rightarrow> (exn + string option) \<times> world" where
  "run_conversion rt cmd output_file w =
     (case subprocess_run rt cmd (print (Running cmd) w) of
        (Raised e, w1) \<Rightarrow> convert_except e w1
      | (Completed returncode out err, w1) \<Rightarrow>
          if returncode = 0 then
            (if path_exists w1 output_file then
               (case getsize w1 output_file of
                  Inl e \<Rightarrow> convert_except e w1
                | Inr file_size \<Rightarrow>
                    (Inr (Some output_file),
                     prints [ConversionSuccessful, OutputPath output_file, OutputSize file_size] w1))
             else (Inr None, print OutputNotCreated w1))
          else (Inr None, prints [FFmpegError, Stderr err] w1))"

definition convert_mkv_to_webp ::
  "runtime \<Rightarrow> string \<Rightarrow> string option \<Rightarrow> options \<Rightarrow> world \<Rightarrow> (exn + string option) \<times> world" where
  "convert_mkv_to_webp rt input_file output_file opts w =
     (case check_ffmpeg rt w of
        (Inl e, w1) \<Rightarrow> (Inl e, w1)
      | (Inr available, w1) \<Rightarrow>
          if \<not> available then (Inr None, install_ffmpeg_suggestion (print FFmpegNotFound w1))
          else if \<not> path_exists w1 input_file then (Inr None, print (InputNotFound input_file) w1)
          else
            (let output_file = (if \<not> opt_truthy str_truthy output_file
                                then derive_output input_file else the output_file);
                 w2 = print (Converting input_file output_file) w1;
                 cmd = convert_cmd (float_str rt) input_file output_file opts
             in run_conversion rt cmd output_file w2))"

section \<open>\<^verbatim>\<open>get_video_info\<close>\<close>

subsection \<open>The library calls it makes\<close>

text \<open>\<^verbatim>\<open>v.get(k, default)\<close>: only a dictionary has the method.\<close>

definition json_get :: "json \<Rightarrow> string \<Rightarrow> json \<Rightarrow> exn + json" where
  "json_get v k dflt =
     (case v of
        JObj kvs \<Rightarrow> Inr (case map_of kvs k of None \<Rightarrow> dflt | Some x \<Rightarrow> x)
      | _ \<Rightarrow> Inl AttributeError)"

text \<open>The items a \<^verbatim>\<open>for\<close> loop takes from a value (the keys of a dictionary).\<close>

definition py_iter :: "json \<Rightarrow> exn + json list" where
  "py_iter v =
     (case v of
        JArr xs \<Rightarrow> Inr xs
      | JStr s \<Rightarrow> Inr (map (\<lambda>c. JStr [c]) s)
      | JObj kvs \<Rightarrow> Inr (map (\<lambda>kv. JStr (fst kv)) kvs)
      | _ \<Rightarrow> Inl TypeError)"

text \<open>The number of binary digits of a natural number (\<^verbatim>\<open>int.bit_length\<close>).\<close>

fun bit_length :: "nat \<Rightarrow> nat" where
  "bit_length n = (if n = 0 then 0 else Suc (bit_length (n div 2)))"

declare bit_length.simps [simp del]

text \<open>
  The double nearest to a natural number, as mantissa and exponent: numbers below
  \<open>2^53\<close> are doubles; a longer one keeps its 53 leading binary digits and is rounded
  on the rest, a tie going to the even mantissa.
\<close>

definition nearest_double :: "nat \<Rightarrow> nat \<times> int" where
  "nearest_double n =
     (if n < 2 ^ 53 then (n, 0)
      else
        (let e = bit_length n - 53;
             q = n div 2 ^ e;
             r = n mod 2 ^ e;
             half = 2 ^ (e - 1)
         in (if half < r \<or> (r = half \<and> odd q) then q + 1 else q, int e)))"

text \<open>
  \<^verbatim>\<open>float(v)\<close>. An integer becomes the double nearest to it, unless that is beyond
  the largest double (\<^verbatim>\<open>OverflowError\<close>).
\<close>

definition py_float :: "runtime \<Rightarrow> json \<Rightarrow> exn + pyfloat" where
  "py_float rt v =
     (case v of
        JStr s \<Rightarrow> (case float_of_str rt s of None \<Rightarrow> Inl ValueError | Some f \<Rightarrow> Inr f)
      | JNum (PyInt n) \<Rightarrow>
          (if 2 ^ 1024 - 2 ^ 970 \<le> \<bar>n\<bar> then Inl OverflowError
           else Inr (FFinite (n < 0) (fst (nearest_double (nat \<bar>n\<bar>)))
                       (snd (nearest_double (nat \<bar>n\<bar>)))))
      | JNum (PyFloat f) \<Rightarrow> Inr f
      | JBool b \<Rightarrow> Inr (FFinite False (if b then 1 else 0) 0)
      | _ \<Rightarrow> Inl TypeError)"

subsection \<open>\<^verbatim>\<open>eval\<close> on the frame-rate text\<close>

definition is_digit :: "char \<Rightarrow> bool" where
  "is_digit c = (c \<in> set ''0123456789'')"

definition digit_val :: "char \<Rightarrow> nat" where
  "digit_val c = length (takeWhile (\<lambda>d. d \<noteq> c) ''0123456789'')"

definition digits_val :: "string \<Rightarrow> nat" where
  "digits_val s = foldl (\<lambda>a c. 10 * a + digit_val c) 0 s"

text \<open>
  A decimal integer literal of Python written with digits only: no leading zero
  unless every digit is zero. The interpreter refuses a literal of more than 4300
  digits unless it is configured otherwise; such literals are left out of the model.
\<close>

definition int_literal :: "string \<Rightarrow> int option" where
  "int_literal s =
     (if s \<noteq> [] \<and> list_all is_digit s
         \<and> (hd s \<noteq> CHR ''0'' \<or> list_all (\<lambda>c. c = CHR ''0'') s) \<and> length s \<le> 4300
      then Some (int (digits_val s)) else None)"

definition split_slash :: "string \<Rightarrow> (string \<times> string) option" where
  "split_slash s =
     (if CHR ''/'' \<in> set s
      then Some (takeWhile (\<lambda>c. c \<noteq> CHR ''/'') s, tl (dropWhile (\<lambda>c. c \<noteq> CHR ''/'') s))
      else None)"

datatype eval_result = EvalValue evalue | EvalRaises exn | EvalUnmodelled

text \<open>
  The quotient \<open>n / d\<close> of two natural numbers, \<open>d\<close> not zero, has no double when it
  is at or beyond the middle between the largest double and \<open>2^1024\<close>: the division
  raises \<^verbatim>\<open>OverflowError\<close>.
\<close>

definition quotient_overflows :: "int \<Rightarrow> int \<Rightarrow> bool" where
  "quotient_overflows n d = ((2 ^ 1024 - 2 ^ 970) * d \<le> n)"

text \<open>
  The builtin \<^verbatim>\<open>eval\<close> takes any Python expression and runs it. Modelled here are the
  two shapes of text that matter for a frame rate: one integer literal, which
  evaluates to that integer, and two integer literals around one \<^verbatim>\<open>/\<close>, which
  evaluate to the double nearest to their quotient, or raise \<^verbatim>\<open>ZeroDivisionError\<close>
  (denominator zero) or \<^verbatim>\<open>OverflowError\<close> (quotient beyond the doubles). On every
  other text the answer of the model is \<open>EvalUnmodelled\<close>: what \<^verbatim>\<open>eval\<close> does there
  (raise, return a value of any type, run code with effects) is not described.
\<close>

definition py_eval :: "string \<Rightarrow> eval_result" where
  "py_eval s =
     (case int_literal s of
        Some n \<Rightarrow> EvalValue (EInt n)
      | None \<Rightarrow>
          (case split_slash s of
             None \<Rightarrow> EvalUnmodelled
           | Some (a, b) \<Rightarrow>
               (case (int_literal a, int_literal b) of
                  (Some n, Some d) \<Rightarrow>
                    if d = 0 then EvalRaises ZeroDivisionError
                    else if quotient_overflows n d then EvalRaises OverflowError
                    else EvalValue (EQuot n d)
                | _ \<Rightarrow> EvalUnmodelled)))"



subsection \<open>The function\<close>

text \<open>
  What \<^verbatim>\<open>get_video_info\<close> returns: the four values of the first video stream, or
  four times \<^verbatim>\<open>None\<close>. \<open>Unmodelled\<close> stands for a run whose \<^verbatim>\<open>eval\<close> left the
  modelled expressions.
\<close>

datatype probe = VideoInfo pyfloat json json evalue | NoInfo | Unmodelled

text \<open>
  The handler \<^verbatim>\<open>except Exception as e\<close>, followed by the final
  \<^verbatim>\<open>return None, None, None, None\<close>.
\<close>

definition probe_except :: "exn \<Rightarrow> world \<Rightarrow> (exn + probe) \<times> world" where
  "probe_except e w =
     (if is_Exception e then (Inr NoInfo, print (CouldNotGetInfo e) w) else (Inl e, w))"

text \<open>The frame rate of a stream: \<^verbatim>\<open>eval(stream.get('r_frame_rate', '0/1'))\<close>.\<close>

definition stream_fps :: "json \<Rightarrow> eval_result" where
  "stream_fps stream =
     (case json_get stream ''r_frame_rate'' (JStr ''0/1'') of
        Inl e \<Rightarrow> EvalRaises e
      | Inr (JStr s) \<Rightarrow> py_eval s
      | Inr _ \<Rightarrow> EvalRaises TypeError)"

text \<open>The body of \<^verbatim>\<open>if stream.get('codec_type') == 'video'\<close>.\<close>

definition read_video_stream :: "runtime \<Rightarrow> json \<Rightarrow> world \<Rightarrow> (exn + probe) \<times> world" where
  "read_video_stream rt stream w =
     (case json_get stream ''duration'' (JNum (PyInt 0)) of
        Inl e \<Rightarrow> probe_except e w
      | Inr d \<Rightarrow>
     (case py_float rt d of
        Inl e \<Rightarrow> probe_except e w
      | Inr duration' \<Rightarrow>
     (case json_get stream ''width'' (JNum (PyInt 0)) of
        Inl e \<Rightarrow> probe_except e w
      | Inr width' \<Rightarrow>
     (case json_get stream ''height'' (JNum (PyInt 0)) of
        Inl e \<Rightarrow> probe_except e w
      | Inr height' \<Rightarrow>
     (case stream_fps stream of
        EvalRaises e \<Rightarrow> probe_except e w
      | EvalUnmodelled \<Rightarrow> (Inr Unmodelled, w)
      | EvalValue fps' \<Rightarrow>
          (Inr (VideoInfo duration' width' height' fps'),
           prints [VideoInfoHeader, InfoDuration duration', InfoResolution width' height',
                   InfoFrameRate fps'] w))))))"

text \<open>The loop \<^verbatim>\<open>for stream in data.get('streams', [])\<close>.\<close>

fun find_video_stream :: "runtime \<Rightarrow> json list \<Rightarrow> world \<Rightarrow> (exn + probe) \<times> world" where
  "find_video_stream rt [] w = (Inr NoInfo, w)"
| "find_video_stream rt (stream # rest) w =
     (case json_get stream ''codec_type'' JNull of
        Inl e \<Rightarrow> probe_except e w
      | Inr codec_type \<Rightarrow>
          if codec_type = JStr ''video'' then read_video_stream rt stream w
          else find_video_stream rt rest w)"

definition ffprobe_cmd :: "string \<Rightarrow> string list" where
  "ffprobe_cmd input_file =
     [''ffprobe'', ''-v'', ''quiet'', ''-print_format'', ''json'',
      ''-show_format'', ''-show_streams'', input_file]"

definition get_video_info :: "runtime \<Rightarrow> string \<Rightarrow> world \<Rightarrow> (exn + probe) \<times> world" where
  "get_video_info rt input_file w =
     (case subprocess_run rt (ffprobe_cmd input_file) w of
        (Raised e, w1) \<Rightarrow> probe_except e w1
      | (Completed returncode out err, w1) \<Rightarrow>
          if returncode = 0 then
            (case json_loads rt out of
               Inl e \<Rightarrow> probe_except e w1
             | Inr data \<Rightarrow>
                 (case json_get data ''streams'' (JArr []) of
                    Inl e \<Rightarrow> probe_except e w1
                  | Inr ss \<Rightarrow>
                      (case py_iter ss of
                         Inl e \<Rightarrow> probe_except e w1
                       | Inr streams \<Rightarrow> find_video_stream rt streams w1)))
          else (Inr NoInfo, w1))"

section \<open>\<^verbatim>\<open>batch_convert\<close>\<close>

text \<open>
  The loop \<^verbatim>\<open>for mkv_file in mkv_files\<close> with its counter \<^verbatim>\<open>success_count\<close>. An
  exception that leaves \<^verbatim>\<open>convert_mkv_to_webp\<close> leaves the loop.
\<close>

fun batch_loop ::
  "runtime \<Rightarrow> string \<Rightarrow> string \<Rightarrow> options \<Rightarrow> string list \<Rightarrow> nat \<Rightarrow> world \<Rightarrow> (exn + nat) \<times> world" where
  "batch_loop rt input_dir output_dir opts [] success_count w = (Inr success_count, w)"
| "batch_loop rt input_dir output_dir opts (mkv_file # rest) success_count w =
     (let input_path = path_join input_dir mkv_file;
          output_name = batch_output_name mkv_file;
          output_path = path_join output_dir output_name;
          w1 = print (ItemHeader mkv_file) w
      in case convert_mkv_to_webp rt input_path (Some output_path) opts w1 of
           (Inl e, w2) \<Rightarrow> (Inl e, w2)
         | (Inr result, w2) \<Rightarrow>
             batch_loop rt input_dir output_dir opts rest
               (if opt_truthy str_truthy result then success_count + 1 else success_count) w2)"

definition batch_convert ::
  "runtime \<Rightarrow> string \<Rightarrow> string option \<Rightarrow> options \<Rightarrow> world \<Rightarrow> (exn + unit) \<times> world" where
  "batch_convert rt input_dir output_dir opts w =
     (if \<not> isdir w input_dir then (Inr (), print (DirectoryNotFound input_dir) w)
      else
        (let output_dir = (if \<not> opt_truthy str_truthy output_dir then input_dir
                           else the output_dir)
         in case makedirs rt (fs w) output_dir of
              Inl e \<Rightarrow> (Inl e, w)
            | Inr fs' \<Rightarrow>
                (let w1 = w\<lparr>fs := fs'\<rparr>
                 in case listdir w1 input_dir of
                      Inl e \<Rightarrow> (Inl e, w1)
                    | Inr names \<Rightarrow>
                        (let mkv_files = filter (\<lambda>f. endswith (str_lower rt f) ''.mkv'') names
                         in if mkv_files = [] then (Inr (), print NoMkvFiles w1)
                            else
                              (case batch_loop rt input_dir output_dir opts mkv_files 0
                                      (print (FoundFiles (length mkv_files)) w1) of
                                 (Inl e, w2) \<Rightarrow> (Inl e, w2)
                               | (Inr success_count, w2) \<Rightarrow>
                                   (Inr (),
                                    print (Converted success_count (length mkv_files)) w2))))))"

section \<open>\<^verbatim>\<open>main\<close> and the script\<close>

text \<open>The namespace that \<^verbatim>\<open>parser.parse_args()\<close> returns.\<close>

record args =
  arg_input :: string
  arg_output :: "string option"
  arg_start :: pynum
  arg_duration :: "pynum option"
  arg_fps :: int
  arg_width :: "int option"
  arg_height :: "int option"
  arg_quality :: int
  arg_lossless :: bool
  arg_no_loop :: bool
  arg_batch :: bool
  arg_verbose :: bool
  arg_info :: bool

text \<open>How a call ends: it returns, an exception leaves it, or it left the model.\<close>

datatype outcome = Returned | Escaped exn | BeyondModel

definition params_of :: "args \<Rightarrow> options" where
  "params_of a =
     \<lparr>start_time = arg_start a, duration = arg_duration a, fps = arg_fps a,
      width = arg_width a, height = arg_height a, quality = arg_quality a,
      lossless = arg_lossless a, loop = (\<not> arg_no_loop a), verbose = arg_verbose a\<rparr>"

text \<open>
  The size comparison after a successful conversion. Sizes are printed in MB; the
  division by the original size raises \<^verbatim>\<open>ZeroDivisionError\<close> for an empty input.
\<close>

definition report_compression :: "string \<Rightarrow> string \<Rightarrow> world \<Rightarrow> outcome \<times> world" where
  "report_compression input result w =
     (case getsize w input of
        Inl e \<Rightarrow> (Escaped e, w)
      | Inr original_size \<Rightarrow>
          (case getsize w result of
             Inl e \<Rightarrow> (Escaped e, w)
           | Inr webp_size \<Rightarrow>
               if original_size = 0 then (Escaped ZeroDivisionError, w)
               else (Returned,
                     prints [CompressionHeader, OriginalSize original_size, WebpSize webp_size,
                             Saved original_size webp_size] w)))"

text \<open>The body of the \<^verbatim>\<open>try\<close> statement of \<^verbatim>\<open>main\<close>.\<close>

definition main_try :: "runtime \<Rightarrow> args \<Rightarrow> world \<Rightarrow> outcome \<times> world" where
  "main_try rt a w =
     (if arg_batch a \<or> isdir w (arg_input a) then
        (case batch_convert rt (arg_input a) (arg_output a) (params_of a) w of
           (Inl e, w1) \<Rightarrow> (Escaped e, w1)
         | (Inr u, w1) \<Rightarrow> (Returned, w1))
      else
        (case get_video_info rt (arg_input a) (print Analyzing w) of
           (Inl e, w1) \<Rightarrow> (Escaped e, w1)
         | (Inr Unmodelled, w1) \<Rightarrow> (BeyondModel, w1)
         | (Inr info, w1) \<Rightarrow>
             (case convert_mkv_to_webp rt (arg_input a) (arg_output a) (params_of a)
                     (print BlankLine w1) of
                (Inl e, w2) \<Rightarrow> (Escaped e, w2)
              | (Inr result, w2) \<Rightarrow>
                  if opt_truthy str_truthy result
                  then report_compression (arg_input a) (the result) w2
                  else (Returned, w2))))"

definition main :: "runtime \<Rightarrow> args \<Rightarrow> world \<Rightarrow> outcome \<times> world" where
  "main rt a w =
     (if arg_info a then
        (if isfile w (arg_input a) then
           (case get_video_info rt (arg_input a) w of
              (Inl e, w1) \<Rightarrow> (Escaped e, w1)
            | (Inr Unmodelled, w1) \<Rightarrow> (BeyondModel, w1)
            | (Inr info, w1) \<Rightarrow> (Returned, w1))
         else (Returned, print InfoNeedsFile w))
      else
        (case main_try rt a w of
           (Escaped e, w1) \<Rightarrow>
             (Returned, print (if e = KeyboardInterrupt then Cancelled else TopLevelError e) w1)
         | r \<Rightarrow> r))"

text \<open>
  How the process ends: with an exit status, or with the traceback of an exception
  that nothing caught (the status is then not zero).
\<close>

datatype ending = Exit nat | Traceback exn | ExitUnmodelled

text \<open>
  The block under \<^verbatim>\<open>if __name__ == '__main__'\<close>. The argument is \<open>None\<close> when the
  script got no argument at all (\<^verbatim>\<open>len(sys.argv) == 1\<close>), else the parsed arguments.
  A process that runs to the end of the script exits with status 0.
\<close>

definition script :: "runtime \<Rightarrow> args option \<Rightarrow> world \<Rightarrow> ending \<times> world" where
  "script rt argv w =
     (let w1 = prints [Banner, BannerRule] w
      in case argv of
           None \<Rightarrow>
             (Exit 1, prints [UsageLine 0, UsageLine 1, UsageLine 2, UsageLine 3,
                              UsageLine 4, UsageLine 5] w1)
         | Some a \<Rightarrow>
             (case main rt a w1 of
                (Returned, w2) \<Rightarrow> (Exit 0, w2)
              | (Escaped e, w2) \<Rightarrow> (Traceback e, w2)
              | (BeyondModel, w2) \<Rightarrow> (ExitUnmodelled, w2)))"

section \<open>Reading an argument list\<close>

text \<open>The argument that follows the first occurrence of a flag.\<close>

fun flag_value :: "string \<Rightarrow> string list \<Rightarrow> string option" where
  "flag_value f [] = None"
| "flag_value f [x] = None"
| "flag_value f (x # y # ys) = (if x = f then Some y else flag_value f (y # ys))"

section \<open>Reading the console\<close>

text \<open>
  The entries named by the per-item header lines of the batch, in the order printed,
  the number of version queries among the commands launched (the converter makes one
  per call), and the number of success lines of the converter.
\<close>

definition item_headers :: "msg list \<Rightarrow> string list" where
  "item_headers ms = concat (map (\<lambda>m. case m of ItemHeader f \<Rightarrow> [f] | _ \<Rightarrow> []) ms)"

definition version_queries :: "string list list \<Rightarrow> nat" where
  "version_queries cmds = length (filter (\<lambda>c. c = [''ffmpeg'', ''-version'']) cmds)"

definition successes :: "msg list \<Rightarrow> nat" where
  "successes ms = length (filter (\<lambda>m. m = ConversionSuccessful) ms)"

section \<open>Example environments\<close>

text \<open>
  Concrete worlds and tools on which the theorems below are run: the text of a float
  that is a whole number, a runtime built from the behaviour of the external programs
  and the JSON document that the probe prints, five behaviours of the external
  programs (not installed; not executable; answers the version query and may not be
  run for anything else; exits with status 0 and writes nothing; exits with status 0
  and writes the file named after \<^verbatim>\<open>-y\<close>), and a small file system.
\<close>

definition whole_float_str :: "pyfloat \<Rightarrow> string" where
  "whole_float_str f =
     (case f of
        FFinite s m e \<Rightarrow> (if s then ''-'' else []) @ str_nat m @ ''.0''
      | FInf s \<Rightarrow> (if s then ''-inf'' else ''inf'')
      | FNaN \<Rightarrow> ''nan'')"

definition demo_runtime :: "(world \<Rightarrow> string list \<Rightarrow> proc \<times> filesystem) \<Rightarrow> json \<Rightarrow> runtime" where
  "demo_runtime behave data =
     \<lparr>run_process = behave,
      makedirs = (\<lambda>files p. Inr (if files p = None then files(p \<mapsto> Dir 0 []) else files)),
      float_str = whole_float_str,
      json_loads = (\<lambda>s. Inr data),
      float_of_str = (\<lambda>s. Some (FFinite False (digits_val s) 0)),
      str_lower = ascii_lower\<rparr>"

definition tool_missing :: "world \<Rightarrow> string list \<Rightarrow> proc \<times> filesystem" where
  "tool_missing w cmd = (Raised FileNotFoundError, fs w)"

definition tool_denied :: "world \<Rightarrow> string list \<Rightarrow> proc \<times> filesystem" where
  "tool_denied w cmd = (Raised PermissionError, fs w)"

definition tool_refuses_conversion :: "world \<Rightarrow> string list \<Rightarrow> proc \<times> filesystem" where
  "tool_refuses_conversion w cmd =
     (if cmd = [''ffmpeg'', ''-version''] then Completed 0 [] [] else Raised PermissionError, fs w)"

definition tool_silent :: "world \<Rightarrow> string list \<Rightarrow> proc \<times> filesystem" where
  "tool_silent w cmd = (Completed 0 [] [], fs w)"

definition tool_writes :: "world \<Rightarrow> string list \<Rightarrow> proc \<times> filesystem" where
  "tool_writes w cmd =
     (Completed 0 [] [],
      (case flag_value ''-y'' cmd of None \<Rightarrow> fs w | Some out \<Rightarrow> (fs w)(out \<mapsto> File 1000)))"

definition demo_world :: world where
  "demo_world =
     \<lparr>fs = [''videos'' \<mapsto> Dir 4096 [''a.mkv'', ''notes.txt'', ''B.MKV''],
             ''videos/a.mkv'' \<mapsto> File 5000, ''videos/B.MKV'' \<mapsto> File 7000,
             ''clip.mkv'' \<mapsto> File 9000],
      launched = [], printed = []\<rparr>"

definition demo_opts :: options where
  "demo_opts =
     \<lparr>start_time = PyFloat (FFinite False 5 0), duration = Some (PyFloat (FFinite False 3 0)),
      fps = 12, width = Some 640, height = None, quality = 80,
      lossless = False, loop = True, verbose = False\<rparr>"

definition demo_args :: args where
  "demo_args = \<lparr>arg_input = ''videos'', arg_output = None, arg_start = PyInt 0, arg_duration = None,
    arg_fps = 12, arg_width = None, arg_height = None, arg_quality = 80, arg_lossless = False,
    arg_no_loop = False, arg_batch = False, arg_verbose = False, arg_info = True\<rparr>"


section \<open>Lemmas on text and paths\<close>

lemma rfind_from_append:
  "rfind_from c (xs @ ys) i acc = rfind_from c ys (i + length xs) (rfind_from c xs i acc)"
  by (induction xs arbitrary: i acc) auto

lemma rfind_from_notin: "c \<notin> set xs \<Longrightarrow> rfind_from c xs i acc = acc"
  by (induction xs arbitrary: i acc) auto

lemma rfind_from_char:
  "rfind_from c xs i acc = (if c \<in> set xs then int i + rfind_from c xs 0 (- 1) else acc)"
proof (induction xs arbitrary: i acc)
  case Nil then show ?case by simp
next
  case (Cons x xs)
  have a: "rfind_from c xs (Suc i) b = (if c \<in> set xs then int (Suc i) + rfind_from c xs 0 (- 1) else b)" for b
    by (rule Cons.IH)
  have b: "rfind_from c xs (Suc 0) b = (if c \<in> set xs then int (Suc 0) + rfind_from c xs 0 (- 1) else b)" for b
    by (rule Cons.IH)
  show ?case by (simp add: a b)
qed

lemma rfind_from_bounds:
  "c \<in> set xs \<Longrightarrow> int i \<le> rfind_from c xs i acc \<and> rfind_from c xs i acc < int i + int (length xs)"
proof (induction xs arbitrary: i acc)
  case Nil then show ?case by simp
next
  case (Cons x xs)
  show ?case
  proof (cases "c \<in> set xs")
    case True
    from Cons.IH[OF True, of "Suc i" "if x = c then int i else acc"] show ?thesis by simp
  next
    case False
    with Cons.prems show ?thesis by (simp add: rfind_from_notin)
  qed
qed

lemma rfind_notin: "c \<notin> set p \<Longrightarrow> rfind c p = - 1"
  by (simp add: rfind_def rfind_from_notin)

lemma rfind_in_bounds: "c \<in> set p \<Longrightarrow> 0 \<le> rfind c p \<and> rfind c p < int (length p)"
  using rfind_from_bounds[of c p 0 "- 1"] by (simp add: rfind_def)

lemma rfind_lower: "- 1 \<le> rfind c p"
  using rfind_in_bounds[of c p] rfind_notin[of c p] by (cases "c \<in> set p") auto

lemma rfind_upper: "rfind c p < int (length p)"
  using rfind_in_bounds[of c p] rfind_notin[of c p] by (cases "c \<in> set p") auto

lemma rfind_append_in: "c \<in> set b \<Longrightarrow> rfind c (a @ b) = int (length a) + rfind c b"
  using rfind_from_char[of c b "length a" "rfind_from c a 0 (- 1)"]
  by (simp add: rfind_def rfind_from_append)

lemma rfind_append_notin: "c \<notin> set b \<Longrightarrow> rfind c (a @ b) = rfind c a"
  by (simp add: rfind_def rfind_from_append rfind_from_notin)

lemma rfind_snoc: "rfind c (q @ [c]) = int (length q)"
  using rfind_append_in[of c "[c]" q] by (simp add: rfind_def)

lemma nondot_before_shift:
  "nondot_before (pre @ f) (length pre + i) (length pre + d) = nondot_before f i d"
proof (induction f i d rule: nondot_before.induct)
  case (1 p i d)
  show ?case
  proof (cases "i < d")
    case True
    show ?thesis
    proof (cases "take 1 (drop i p) \<noteq> ''.''")
      case True
      with \<open>i < d\<close> show ?thesis
        by (simp add: nondot_before.simps[of p i d] nondot_before.simps[of "pre @ p" "length pre + i"])
    next
      case False
      with \<open>i < d\<close> 1 show ?thesis
        by (simp add: nondot_before.simps[of p i d] nondot_before.simps[of "pre @ p" "length pre + i"])
    qed
  next
    case False
    then show ?thesis
      by (simp add: nondot_before.simps[of p i d] nondot_before.simps[of "pre @ p" "length pre + i"])
  qed
qed

lemma nondot_before_less: "nondot_before p i d \<Longrightarrow> i < d"
  by (subst (asm) nondot_before.simps) (auto split: if_splits)

lemma splitext_root_prefix:
  assumes "pre = [] \<or> last pre = CHR ''/''"
  shows "fst (splitext (pre @ f)) = pre @ fst (splitext f)"
proof (cases "pre = []")
  case True then show ?thesis by simp
next
  case False
  with assms obtain q where pre: "pre = q @ ''/''"
    by (metis append_butlast_last_id)
  have len: "length pre = Suc (length q)" by (simp add: pre)
  have sep: "rfind CHR ''/'' (pre @ f) = int (length pre) + rfind CHR ''/'' f"
  proof (cases "CHR ''/'' \<in> set f")
    case True then show ?thesis by (rule rfind_append_in)
  next
    case False
    then show ?thesis
      using rfind_snoc[of "CHR ''/''" q] rfind_append_notin[of "CHR ''/''" f pre]
      by (simp add: rfind_notin pre)
  qed
  show ?thesis
  proof (cases "CHR ''.'' \<in> set f")
    case True
    have dot: "rfind CHR ''.'' (pre @ f) = int (length pre) + rfind CHR ''.'' f"
      using True by (rule rfind_append_in)
    have d0: "0 \<le> rfind CHR ''.'' f" using rfind_in_bounds[OF True] by simp
    have s0: "0 \<le> rfind CHR ''/'' f + 1" using rfind_lower[of "CHR ''/''" f] by simp
    have n1: "nat (int (length pre) + rfind CHR ''/'' f + 1) = length pre + nat (rfind CHR ''/'' f + 1)"
      using s0 by (simp add: nat_add_distrib)
    have n2: "nat (int (length pre) + rfind CHR ''.'' f) = length pre + nat (rfind CHR ''.'' f)"
      using d0 by (simp add: nat_add_distrib)
    show ?thesis
      by (simp add: splitext_def sep dot n1 n2 nondot_before_shift Let_def)
  next
    case False
    have dotf: "rfind CHR ''.'' f = - 1" using False by (rule rfind_notin)
    have "rfind CHR ''.'' (pre @ f) = rfind CHR ''.'' pre"
      using False by (rule rfind_append_notin)
    moreover have "rfind CHR ''.'' pre < int (length pre)" by (rule rfind_upper)
    moreover have "- 1 \<le> rfind CHR ''/'' f" by (rule rfind_lower)
    ultimately have "\<not> rfind CHR ''.'' (pre @ f) > rfind CHR ''/'' (pre @ f)"
      using sep by linarith
    moreover have "\<not> rfind CHR ''.'' f > rfind CHR ''/'' f"
      using dotf rfind_lower[of "CHR ''/''" f] by linarith
    ultimately show ?thesis
      by (simp add: splitext_def Let_def)
  qed
qed

lemma splitext_root_take1: "take 1 (fst (splitext f) @ s) = ''/'' \<longleftrightarrow> take 1 f = ''/''" if "take 1 s \<noteq> ''/''"
proof (cases "f = []")
  case True
  then show ?thesis using that by (simp add: splitext_def rfind_def Let_def nondot_before.simps)
next
  case False
  then obtain x xs where f: "f = x # xs" by (cases f) auto
  have "\<exists>ys. fst (splitext f) = x # ys"
  proof (cases "rfind CHR ''.'' f > rfind CHR ''/'' f \<and> nondot_before f (nat (rfind CHR ''/'' f + 1)) (nat (rfind CHR ''.'' f))")
    case True
    then have "0 < nat (rfind CHR ''.'' f)" using nondot_before_less by fastforce
    then obtain k where "nat (rfind CHR ''.'' f) = Suc k" by (cases "nat (rfind CHR ''.'' f)") auto
    with True show ?thesis by (simp add: splitext_def Let_def f)
  next
    case False
    then show ?thesis by (auto simp add: splitext_def Let_def f)
  qed
  then show ?thesis by (auto simp: f)
qed

lemma batch_path_eq:
  "path_join d (batch_output_name f) = derive_output (path_join d f)"
proof (cases "take 1 f = ''/''")
  case True
  then show ?thesis
    using splitext_root_take1[of "''_algorithm_viz.webp''" f]
    by (simp add: path_join_def batch_output_name_def derive_output_def)
next
  case False
  define pre where "pre = (if d = [] \<or> last d = CHR ''/'' then d else d @ ''/'')"
  have p: "pre = [] \<or> last pre = CHR ''/''" by (auto simp: pre_def)
  have j1: "path_join d f = pre @ f" using False by (simp add: path_join_def pre_def)
  have "take 1 (fst (splitext f) @ ''_algorithm_viz.webp'') \<noteq> ''/''"
    using False splitext_root_take1[of "''_algorithm_viz.webp''" f] by simp
  then have j2: "path_join d (fst (splitext f) @ ''_algorithm_viz.webp'') = pre @ fst (splitext f) @ ''_algorithm_viz.webp''"
    by (simp add: path_join_def pre_def)
  show ?thesis
    by (simp add: j1 j2 batch_output_name_def derive_output_def splitext_root_prefix[OF p])
qed

lemma digit_char_in: "d < 10 \<Longrightarrow> digit_char d \<in> set ''0123456789''"
proof -
  assume "d < 10"
  then have "d \<in> {0,1,2,3,4,5,6,7,8,9}" by auto
  then show ?thesis by (auto simp: digit_char_def)
qed

lemma str_nat_chars: "set (str_nat n) \<subseteq> set ''0123456789''"
proof (induction n rule: str_nat.induct)
  case (1 n)
  show ?case
  proof (cases "n < 10")
    case True
    have "str_nat n = [digit_char n]" using True by (simp add: str_nat.simps[of n])
    then show ?thesis using digit_char_in[OF True] by simp
  next
    case False
    have e: "str_nat n = str_nat (n div 10) @ [digit_char (n mod 10)]"
      using False by (simp add: str_nat.simps[of n])
    have "n mod 10 < 10" by simp
    then have "digit_char (n mod 10) \<in> set ''0123456789''" by (rule digit_char_in)
    moreover have "set (str_nat (n div 10)) \<subseteq> set ''0123456789''" using False by (rule 1)
    ultimately show ?thesis unfolding e by simp
  qed
qed

lemma digits_sub: "set ''0123456789'' \<subseteq> set ''-0123456789''"
  by (rule set_subset_Cons)

lemma str_int_chars: "set (str_int i) \<subseteq> set ''-0123456789''"
proof (cases "i < 0")
  case True
  then have e: "str_int i = CHR ''-'' # str_nat (nat (- i))" by (simp add: str_int_def)
  have "set (str_nat (nat (- i))) \<subseteq> set ''-0123456789''"
    using str_nat_chars digits_sub by (rule subset_trans)
  then show ?thesis unfolding e by (simp only: list.set insert_subset insertI1 simp_thms)
next
  case False
  then have e: "str_int i = str_nat (nat i)" by (simp add: str_int_def)
  show ?thesis unfolding e using str_nat_chars digits_sub by (rule subset_trans)
qed

lemma str_int_neq: "c \<in> set s \<Longrightarrow> c \<notin> set ''-0123456789'' \<Longrightarrow> str_int i \<noteq> s"
  using str_int_chars[of i] by blast


lemma flag_value_skip: "f \<notin> set xs \<Longrightarrow> flag_value f (xs @ ys) = flag_value f ys"
proof (induction xs)
  case Nil then show ?case by simp
next
  case (Cons x xs)
  then show ?case by (cases "xs @ ys") auto
qed

lemma flag_value_absent: "f \<notin> set xs \<Longrightarrow> flag_value f xs = None"
  using flag_value_skip[of f xs "[]"] by simp

lemma convert_cmd_segments:
  "convert_cmd fstr input_file output_file opts =
     [''ffmpeg'', ''-i'', input_file]
     @ (if num_gt0 (start_time opts) then [''-ss'', str_num fstr (start_time opts)] else [])
     @ (if opt_truthy num_truthy (duration opts) then [''-t'', str_num fstr (the (duration opts))] else [])
     @ [''-r'', str_int (fps opts)]
     @ (if convert_filters (width opts) (height opts) \<noteq> []
        then [''-vf'', join_str '','' (convert_filters (width opts) (height opts))] else [])
     @ (if lossless opts then [''-lossless'', ''1''] else [''-quality'', str_int (quality opts)])
     @ (if loop opts then [''-loop'', ''0''] else [])
     @ [''-y'', output_file]
     @ (if \<not> verbose opts then [''-loglevel'', ''error''] else [])"
  by (simp add: convert_cmd_def Let_def)

lemma convert_filters_cases:
  "convert_filters w h = [] \<or> (\<exists>f. convert_filters w h = [f] \<and> take 6 f = ''scale='')"
  by (simp add: convert_filters_def)

section \<open>The derived output path\<close>

text \<open>
  Claim C8. With no explicit output, the output path is the input path without its
  extension, followed by \<^verbatim>\<open>_algorithm_viz.webp\<close>: for \<^verbatim>\<open>clip.mkv\<close> it is
  \<^verbatim>\<open>clip_algorithm_viz.webp\<close>. The batch converter names the output of an entry by the
  same rule, and the path it passes on (the name joined to the directory) is the path
  that the single converter would derive from the joined input path.
\<close>

theorem derived_output_rule:
  "derive_output ''clip.mkv'' = ''clip_algorithm_viz.webp''
   \<and> batch_output_name ''clip.mkv'' = ''clip_algorithm_viz.webp''
   \<and> batch_output_name f = derive_output f
   \<and> path_join d (batch_output_name f) = derive_output (path_join d f)"
proof -
  have a: "derive_output ''clip.mkv'' = ''clip_algorithm_viz.webp''"
    by (simp add: derive_output_def splitext_def rfind_def nondot_before.simps)
  have b: "batch_output_name g = derive_output g" for g
    by (simp add: batch_output_name_def derive_output_def)
  show ?thesis using a b batch_path_eq by simp
qed

theorem derived_output_rule_witness:
  "path_join ''videos'' (batch_output_name ''a.mkv'') = ''videos/a_algorithm_viz.webp''
   \<and> derive_output (path_join ''videos'' ''a.mkv'') = ''videos/a_algorithm_viz.webp''"
proof -
  have "derive_output ''videos/a.mkv'' = ''videos/a_algorithm_viz.webp''"
    by (simp add: derive_output_def splitext_def rfind_def nondot_before.simps)
  moreover have "path_join ''videos'' ''a.mkv'' = ''videos/a.mkv''"
    by (simp add: path_join_def)
  moreover have "path_join ''videos'' (batch_output_name ''a.mkv'')
                   = derive_output (path_join ''videos'' ''a.mkv'')"
    using derived_output_rule[of "''a.mkv''" "''videos''"] by blast
  ultimately show ?thesis by simp
qed

section \<open>The order of the arguments\<close>

text \<open>
  Claim C1. For every options record of the data model (a duration, when set, is not
  zero) the command is, in this order: the program name, the input flag and path, the
  seek flag and value iff the start time is positive, the duration flag and value iff
  a duration is set, the frame-rate flag and value, the video-filter flag and filter
  iff a scale filter was built, the lossless flag or the quality flag, the loop flag
  iff looping, the overwrite flag and the output path, the quiet log level iff not
  verbose.
\<close>

theorem command_order:
  assumes "\<And>d. duration opts = Some d \<Longrightarrow> num_truthy d"
  shows "convert_cmd fstr input_file output_file opts =
     [''ffmpeg''] @ [''-i'', input_file]
     @ (if num_gt0 (start_time opts) then [''-ss'', str_num fstr (start_time opts)] else [])
     @ (case duration opts of None \<Rightarrow> [] | Some d \<Rightarrow> [''-t'', str_num fstr d])
     @ [''-r'', str_int (fps opts)]
     @ (case convert_filters (width opts) (height opts) of [] \<Rightarrow> [] | f # _ \<Rightarrow> [''-vf'', f])
     @ (if lossless opts then [''-lossless'', ''1''] else [''-quality'', str_int (quality opts)])
     @ (if loop opts then [''-loop'', ''0''] else [])
     @ [''-y'', output_file]
     @ (if verbose opts then [] else [''-loglevel'', ''error''])"
proof -
  have d: "(if opt_truthy num_truthy (duration opts) then [''-t'', str_num fstr (the (duration opts))] else [])
           = (case duration opts of None \<Rightarrow> [] | Some d \<Rightarrow> [''-t'', str_num fstr d])"
    using assms by (cases "duration opts") (simp_all add: opt_truthy_def)
  have f: "(if convert_filters (width opts) (height opts) \<noteq> []
        then [''-vf'', join_str '','' (convert_filters (width opts) (height opts))] else [])
        = (case convert_filters (width opts) (height opts) of [] \<Rightarrow> [] | f # _ \<Rightarrow> [''-vf'', f])"
    using convert_filters_cases[of "width opts" "height opts"] by auto
  show ?thesis
    unfolding convert_cmd_segments d f by simp
qed

lemma str_int_640: "str_int 640 = ''640''"
  by (simp add: str_int_def str_nat.simps digit_char_def)

theorem command_order_witness:
  "convert_cmd whole_float_str ''in.mkv'' ''out.webp'' demo_opts =
     [''ffmpeg'', ''-i'', ''in.mkv'', ''-ss'', ''5.0'', ''-t'', ''3.0'', ''-r'', ''12'',
      ''-vf'', ''scale=640:-1'', ''-quality'', ''80'', ''-loop'', ''0'', ''-y'', ''out.webp'',
      ''-loglevel'', ''error'']"
proof -
  have h: "\<And>d. duration demo_opts = Some d \<Longrightarrow> num_truthy d"
    by (auto simp: demo_opts_def)
  show ?thesis
    using command_order[of demo_opts whole_float_str "''in.mkv''" "''out.webp''", OF h]
    by (simp add: demo_opts_def whole_float_str_def convert_filters_def opt_truthy_def
        int_truthy_def str_int_def str_nat.simps digit_char_def)
qed


section \<open>Which words of the command the options decide\<close>

lemma str_num_neq:
  "c \<in> set s \<Longrightarrow> c \<notin> set ''-0123456789'' \<Longrightarrow> (\<And>f. fstr f \<noteq> s) \<Longrightarrow> str_num fstr x \<noteq> s"
  by (cases x) (simp_all add: str_int_neq)

lemma filter_text_neq: "take 6 s \<noteq> ''scale='' \<Longrightarrow> convert_filters w h \<noteq> [] \<Longrightarrow> join_str '','' (convert_filters w h) \<noteq> s"
  using convert_filters_cases[of w h] by auto

text \<open>The words of the command that the options alone decide.\<close>

lemma flag_membership:
  assumes c: "c \<in> set F" "c \<notin> set ''-0123456789''"
    and io: "F \<noteq> input_file" "F \<noteq> output_file"
    and fl: "\<And>f. fstr f \<noteq> F"
    and sc: "take 6 F \<noteq> ''scale=''"
  shows "F \<in> set (convert_cmd fstr input_file output_file opts) \<longleftrightarrow>
         F \<in> set ([''ffmpeg'', ''-i'']
             @ (if num_gt0 (start_time opts) then [''-ss''] else [])
             @ (if opt_truthy num_truthy (duration opts) then [''-t''] else [])
             @ [''-r'']
             @ (if convert_filters (width opts) (height opts) \<noteq> [] then [''-vf''] else [])
             @ (if lossless opts then [''-lossless''] else [''-quality''])
             @ (if loop opts then [''-loop''] else [])
             @ [''-y'']
             @ (if \<not> verbose opts then [''-loglevel'', ''error''] else []))"
proof -
  have a: "F \<noteq> str_num fstr x" for x
    using str_num_neq[of c F fstr x] c fl by blast
  have b: "F \<noteq> str_int n" for n
    using str_int_neq[of c F n] c by blast
  have d: "F \<noteq> join_str '','' (convert_filters w h)" for w h
  proof (cases "convert_filters w h = []")
    case True
    then show ?thesis using c(1) by auto
  next
    case False
    then show ?thesis using filter_text_neq[of F w h] sc by blast
  qed
  have e: "F \<noteq> ''1''" "F \<noteq> ''0''"
    using c by auto
  have s1: "F \<in> set [''ffmpeg'', ''-i'', input_file] \<longleftrightarrow> F \<in> set [''ffmpeg'', ''-i'']"
    using io by simp
  have s2: "F \<in> set (if p then [''-ss'', str_num fstr x] else []) \<longleftrightarrow> F \<in> set (if p then [''-ss''] else [])" for p x
    using a[of x] by auto
  have s3: "F \<in> set (if p then [''-t'', str_num fstr x] else []) \<longleftrightarrow> F \<in> set (if p then [''-t''] else [])" for p x
    using a[of x] by auto
  have s4: "F \<in> set [''-r'', str_int n] \<longleftrightarrow> F \<in> set [''-r'']" for n
    using b[of n] by simp
  have s5: "F \<in> set (if p then [''-vf'', join_str '','' (convert_filters w h)] else []) \<longleftrightarrow> F \<in> set (if p then [''-vf''] else [])" for p w h
    using d[of w h] by auto
  have s6: "F \<in> set (if p then [''-lossless'', ''1''] else [''-quality'', str_int n]) \<longleftrightarrow> F \<in> set (if p then [''-lossless''] else [''-quality''])" for p n
    using b[of n] e by auto
  have s7: "F \<in> set (if p then [''-loop'', ''0''] else []) \<longleftrightarrow> F \<in> set (if p then [''-loop''] else [])" for p
    using e by auto
  have s8: "F \<in> set [''-y'', output_file] \<longleftrightarrow> F \<in> set [''-y'']"
    using io by simp
  show ?thesis
    by (simp only: convert_cmd_segments set_append Un_iff s1 s2 s3 s4 s5 s6 s7 s8)
qed

lemma whole_float_str_neq:
  assumes "s \<noteq> []" "last s \<noteq> CHR ''0''" "s \<notin> {''inf'', ''-inf'', ''nan''}"
  shows "whole_float_str f \<noteq> s"
proof (cases f)
  case (FFinite sg m e)
  have "last (whole_float_str f) = CHR ''0''"
    by (simp add: whole_float_str_def FFinite)
  then show ?thesis using assms(2) by auto
next
  case (FInf sg)
  then show ?thesis using assms(3) by (auto simp: whole_float_str_def)
next
  case FNaN
  then show ?thesis using assms(3) by (auto simp: whole_float_str_def)
qed

section \<open>The scale filter\<close>

lemma vf_not_before:
  assumes "input_file \<noteq> ''-vf''" "\<And>f. fstr f \<noteq> ''-vf''"
  shows "''-vf'' \<notin> set ([''ffmpeg'', ''-i'', input_file]
     @ (if num_gt0 (start_time opts) then [''-ss'', str_num fstr (start_time opts)] else [])
     @ (if opt_truthy num_truthy (duration opts) then [''-t'', str_num fstr (the (duration opts))] else [])
     @ [''-r'', str_int (fps opts)])"
proof -
  have a: "str_num fstr x \<noteq> ''-vf''" for x
    by (rule str_num_neq[of "CHR ''v''"]) (simp_all add: assms)
  have b: "str_int n \<noteq> ''-vf''" for n
    by (rule str_int_neq[of "CHR ''v''"]) simp_all
  show ?thesis using assms(1) a b a[symmetric] b[symmetric] by simp
qed

lemma vf_not_after:
  assumes "output_file \<noteq> ''-vf''"
  shows "''-vf'' \<notin> set ((if lossless opts then [''-lossless'', ''1''] else [''-quality'', str_int (quality opts)])
     @ (if loop opts then [''-loop'', ''0''] else [])
     @ [''-y'', output_file]
     @ (if \<not> verbose opts then [''-loglevel'', ''error''] else []))"
proof -
  have b: "str_int n \<noteq> ''-vf''" for n
    by (rule str_int_neq[of "CHR ''v''"]) simp_all
  show ?thesis using assms b b[symmetric] by simp
qed

lemma vf_value:
  assumes "input_file \<noteq> ''-vf''" "\<And>f. fstr f \<noteq> ''-vf''" "output_file \<noteq> ''-vf''"
  shows "convert_filters (width opts) (height opts) = [flt] \<Longrightarrow>
           flag_value ''-vf'' (convert_cmd fstr input_file output_file opts) = Some flt"
    and "convert_filters (width opts) (height opts) = [] \<Longrightarrow>
           ''-vf'' \<notin> set (convert_cmd fstr input_file output_file opts)"
proof -
  define pre where "pre = [''ffmpeg'', ''-i'', input_file]
     @ (if num_gt0 (start_time opts) then [''-ss'', str_num fstr (start_time opts)] else [])
     @ (if opt_truthy num_truthy (duration opts) then [''-t'', str_num fstr (the (duration opts))] else [])
     @ [''-r'', str_int (fps opts)]"
  define post where "post = (if lossless opts then [''-lossless'', ''1''] else [''-quality'', str_int (quality opts)])
     @ (if loop opts then [''-loop'', ''0''] else [])
     @ [''-y'', output_file]
     @ (if \<not> verbose opts then [''-loglevel'', ''error''] else [])"
  have pre: "''-vf'' \<notin> set pre"
    unfolding pre_def by (rule vf_not_before[OF assms(1) assms(2)])
  have post: "''-vf'' \<notin> set post"
    unfolding post_def by (rule vf_not_after[OF assms(3)])
  have cmd: "convert_cmd fstr input_file output_file opts =
      pre @ (if convert_filters (width opts) (height opts) \<noteq> []
        then [''-vf'', join_str '','' (convert_filters (width opts) (height opts))] else []) @ post"
    unfolding pre_def post_def convert_cmd_segments by simp
  {
    assume f: "convert_filters (width opts) (height opts) = [flt]"
    have "flag_value ''-vf'' (pre @ ([''-vf'', flt] @ post)) = flag_value ''-vf'' ([''-vf'', flt] @ post)"
      using pre by (rule flag_value_skip)
    then show "flag_value ''-vf'' (convert_cmd fstr input_file output_file opts) = Some flt"
      unfolding cmd f by simp
  }
  {
    assume f: "convert_filters (width opts) (height opts) = []"
    show "''-vf'' \<notin> set (convert_cmd fstr input_file output_file opts)"
      unfolding cmd f using pre post by simp
  }
qed

text \<open>
  Claim C2. For every options record (widths and heights are pixel counts, not zero),
  whatever the paths and the float texts as long as none of them is the word
  \<^verbatim>\<open>-vf\<close> itself: the argument after the video-filter flag is exactly
  \<^verbatim>\<open>scale=W:H\<close> when width and height are given, \<^verbatim>\<open>scale=W:-1\<close> when only the width
  is, \<^verbatim>\<open>scale=-1:H\<close> when only the height is, and the command has no video-filter flag
  when neither is given.
\<close>

theorem scale_filter_argument:
  assumes "input_file \<noteq> ''-vf''" "output_file \<noteq> ''-vf''" "\<forall>f. fstr f \<noteq> ''-vf''"
  shows
   "(width opts = Some W \<and> W \<noteq> 0 \<and> height opts = Some H \<and> H \<noteq> 0 \<longrightarrow>
       flag_value ''-vf'' (convert_cmd fstr input_file output_file opts)
         = Some (''scale='' @ str_int W @ '':'' @ str_int H))
    \<and> (width opts = Some W \<and> W \<noteq> 0 \<and> height opts = None \<longrightarrow>
       flag_value ''-vf'' (convert_cmd fstr input_file output_file opts)
         = Some (''scale='' @ str_int W @ '':-1''))
    \<and> (width opts = None \<and> height opts = Some H \<and> H \<noteq> 0 \<longrightarrow>
       flag_value ''-vf'' (convert_cmd fstr input_file output_file opts)
         = Some (''scale=-1:'' @ str_int H))
    \<and> (width opts = None \<and> height opts = None \<longrightarrow>
       ''-vf'' \<notin> set (convert_cmd fstr input_file output_file opts))"
proof -
  have f: "\<And>f. fstr f \<noteq> ''-vf''" using assms(3) by simp
  note v = vf_value[of input_file fstr output_file opts, OF assms(1) f assms(2)]
  have 1: "width opts = Some W \<and> W \<noteq> 0 \<and> height opts = Some H \<and> H \<noteq> 0 \<longrightarrow>
       flag_value ''-vf'' (convert_cmd fstr input_file output_file opts)
         = Some (''scale='' @ str_int W @ '':'' @ str_int H)"
    using v(1) by (simp add: convert_filters_def opt_truthy_def int_truthy_def)
  have 2: "width opts = Some W \<and> W \<noteq> 0 \<and> height opts = None \<longrightarrow>
       flag_value ''-vf'' (convert_cmd fstr input_file output_file opts)
         = Some (''scale='' @ str_int W @ '':-1'')"
    using v(1) by (simp add: convert_filters_def opt_truthy_def int_truthy_def)
  have 3: "width opts = None \<and> height opts = Some H \<and> H \<noteq> 0 \<longrightarrow>
       flag_value ''-vf'' (convert_cmd fstr input_file output_file opts)
         = Some (''scale=-1:'' @ str_int H)"
    using v(1) by (simp add: convert_filters_def opt_truthy_def int_truthy_def)
  have 4: "width opts = None \<and> height opts = None \<longrightarrow>
       ''-vf'' \<notin> set (convert_cmd fstr input_file output_file opts)"
    using v(2) by (simp add: convert_filters_def opt_truthy_def)
  show ?thesis using 1 2 3 4 by blast
qed


lemma str_int_480: "str_int 480 = ''480''"
  by (simp add: str_int_def str_nat.simps digit_char_def)

theorem scale_filter_argument_witness:
  "flag_value ''-vf'' (convert_cmd whole_float_str ''in.mkv'' ''out.webp''
       (demo_opts\<lparr>width := Some 640, height := Some 480\<rparr>)) = Some ''scale=640:480''
   \<and> flag_value ''-vf'' (convert_cmd whole_float_str ''in.mkv'' ''out.webp''
       (demo_opts\<lparr>width := Some 640, height := None\<rparr>)) = Some ''scale=640:-1''
   \<and> flag_value ''-vf'' (convert_cmd whole_float_str ''in.mkv'' ''out.webp''
       (demo_opts\<lparr>width := None, height := Some 480\<rparr>)) = Some ''scale=-1:480''
   \<and> ''-vf'' \<notin> set (convert_cmd whole_float_str ''in.mkv'' ''out.webp''
       (demo_opts\<lparr>width := None, height := None\<rparr>))"
proof -
  have f: "\<forall>f. whole_float_str f \<noteq> ''-vf''"
    by (simp add: whole_float_str_neq)
  have i: "''in.mkv'' \<noteq> ''-vf''" "''out.webp'' \<noteq> ''-vf''"
    by simp_all
  note t = scale_filter_argument[OF i f, where W = 640 and H = 480]
  show ?thesis
    using t[of "demo_opts\<lparr>width := Some 640, height := Some 480\<rparr>"]
      t[of "demo_opts\<lparr>width := Some 640, height := None\<rparr>"]
      t[of "demo_opts\<lparr>width := None, height := Some 480\<rparr>"]
      t[of "demo_opts\<lparr>width := None, height := None\<rparr>"]
    by (simp add: str_int_640 str_int_480)
qed

section \<open>Quality and lossless\<close>

lemma flag_value_quality_segment:
  assumes c: "c \<in> set F" "c \<notin> set ''-0123456789''"
    and io: "F \<noteq> input_file"
    and fl: "\<And>f. fstr f \<noteq> F"
    and sc: "take 6 F \<noteq> ''scale=''"
    and w: "F \<notin> set [''ffmpeg'', ''-i'', ''-ss'', ''-t'', ''-r'', ''-vf'']"
  shows "flag_value F (convert_cmd fstr input_file output_file opts) =
         flag_value F ((if lossless opts then [''-lossless'', ''1''] else [''-quality'', str_int (quality opts)])
             @ (if loop opts then [''-loop'', ''0''] else [])
             @ [''-y'', output_file]
             @ (if \<not> verbose opts then [''-loglevel'', ''error''] else []))"
proof -
  define pre where "pre = [''ffmpeg'', ''-i'', input_file]
     @ (if num_gt0 (start_time opts) then [''-ss'', str_num fstr (start_time opts)] else [])
     @ (if opt_truthy num_truthy (duration opts) then [''-t'', str_num fstr (the (duration opts))] else [])
     @ [''-r'', str_int (fps opts)]
     @ (if convert_filters (width opts) (height opts) \<noteq> []
        then [''-vf'', join_str '','' (convert_filters (width opts) (height opts))] else [])"
  have a: "F \<noteq> str_num fstr x" for x
    using str_num_neq[of c F fstr x] c fl by blast
  have b: "F \<noteq> str_int n" for n
    using str_int_neq[of c F n] c by blast
  have d: "convert_filters w h \<noteq> [] \<Longrightarrow> F \<noteq> join_str '','' (convert_filters w h)" for w h
    using filter_text_neq[of F w h] sc by blast
  have "F \<notin> set pre"
    unfolding pre_def using a b d io w by auto
  then have "flag_value F (pre @ ys) = flag_value F ys" for ys
    by (rule flag_value_skip)
  then show ?thesis
    unfolding convert_cmd_segments pre_def by simp
qed

text \<open>
  Claim C5. The lossless flag is in the command iff \<open>lossless\<close> is true, and is then
  followed by \<^verbatim>\<open>1\<close>; the quality flag is in the command iff \<open>lossless\<close> is false, and
  is then followed by the quality as a number; never both. (The paths and float texts
  are not themselves one of the two flag words.)
\<close>

theorem quality_or_lossless:
  assumes "input_file \<notin> {''-quality'', ''-lossless''}"
    and "output_file \<notin> {''-quality'', ''-lossless''}"
    and "\<forall>f. fstr f \<notin> {''-quality'', ''-lossless''}"
  shows
    "(''-lossless'' \<in> set (convert_cmd fstr input_file output_file opts) \<longleftrightarrow> lossless opts)
     \<and> (''-quality'' \<in> set (convert_cmd fstr input_file output_file opts) \<longleftrightarrow> \<not> lossless opts)
     \<and> (lossless opts \<longrightarrow>
          flag_value ''-lossless'' (convert_cmd fstr input_file output_file opts) = Some ''1'')
     \<and> (\<not> lossless opts \<longrightarrow>
          flag_value ''-quality'' (convert_cmd fstr input_file output_file opts)
            = Some (str_int (quality opts)))
     \<and> \<not> (''-quality'' \<in> set (convert_cmd fstr input_file output_file opts)
           \<and> ''-lossless'' \<in> set (convert_cmd fstr input_file output_file opts))"
proof -
  have fq: "\<And>f. fstr f \<noteq> ''-quality''" and fl: "\<And>f. fstr f \<noteq> ''-lossless''"
    using assms(3) by auto
  have iq: "''-quality'' \<noteq> input_file" "''-quality'' \<noteq> output_file"
    and il: "''-lossless'' \<noteq> input_file" "''-lossless'' \<noteq> output_file"
    using assms(1,2) by auto
  have ml: "''-lossless'' \<in> set (convert_cmd fstr input_file output_file opts) \<longleftrightarrow> lossless opts"
    by (subst flag_membership[of "CHR ''l''", OF _ _ il fl]) simp_all
  have mq: "''-quality'' \<in> set (convert_cmd fstr input_file output_file opts) \<longleftrightarrow> \<not> lossless opts"
    by (subst flag_membership[of "CHR ''q''", OF _ _ iq fq]) simp_all
  have vl: "lossless opts \<Longrightarrow>
          flag_value ''-lossless'' (convert_cmd fstr input_file output_file opts) = Some ''1''"
    by (subst flag_value_quality_segment[of "CHR ''l''", OF _ _ il(1) fl]) simp_all
  have vq: "\<not> lossless opts \<Longrightarrow>
          flag_value ''-quality'' (convert_cmd fstr input_file output_file opts)
            = Some (str_int (quality opts))"
    by (subst flag_value_quality_segment[of "CHR ''q''", OF _ _ iq(1) fq]) simp_all
  show ?thesis using ml mq vl vq by blast
qed

theorem quality_or_lossless_witness:
  "''-quality'' \<in> set (convert_cmd whole_float_str ''in.mkv'' ''out.webp'' demo_opts)
   \<and> ''-lossless'' \<notin> set (convert_cmd whole_float_str ''in.mkv'' ''out.webp'' demo_opts)
   \<and> flag_value ''-quality'' (convert_cmd whole_float_str ''in.mkv'' ''out.webp'' demo_opts)
       = Some ''80''
   \<and> ''-lossless'' \<in> set (convert_cmd whole_float_str ''in.mkv'' ''out.webp''
         (demo_opts\<lparr>lossless := True\<rparr>))
   \<and> ''-quality'' \<notin> set (convert_cmd whole_float_str ''in.mkv'' ''out.webp''
         (demo_opts\<lparr>lossless := True\<rparr>))
   \<and> flag_value ''-lossless'' (convert_cmd whole_float_str ''in.mkv'' ''out.webp''
         (demo_opts\<lparr>lossless := True\<rparr>)) = Some ''1''"
proof -
  have f: "\<forall>f. whole_float_str f \<notin> {''-quality'', ''-lossless''}"
    by (simp add: whole_float_str_neq)
  have i: "''in.mkv'' \<notin> {''-quality'', ''-lossless''}" "''out.webp'' \<notin> {''-quality'', ''-lossless''}"
    by simp_all
  have q: "str_int 80 = ''80''"
    by (simp add: str_int_def str_nat.simps digit_char_def)
  have l: "\<not> lossless demo_opts" "quality demo_opts = 80"
    by (simp_all add: demo_opts_def)
  note t = quality_or_lossless[OF i f]
  show ?thesis
    using t[of demo_opts] t[of "demo_opts\<lparr>lossless := True\<rparr>"] l q
    by simp
qed
section \<open>A duration of zero\<close>

text \<open>
  Claim C10. A duration of zero (the integer 0, or a float zero of either sign) is
  treated as no duration: the command is the one built without a duration, and it has
  no duration flag (when no path or float text is the word \<^verbatim>\<open>-t\<close>).
\<close>

theorem zero_duration_is_unset:
  assumes "d = PyInt 0 \<or> d = PyFloat (FFinite s 0 e)"
  shows "convert_cmd fstr input_file output_file (opts\<lparr>duration := Some d\<rparr>)
           = convert_cmd fstr input_file output_file (opts\<lparr>duration := None\<rparr>)
         \<and> (input_file \<noteq> ''-t'' \<and> output_file \<noteq> ''-t'' \<and> (\<forall>f. fstr f \<noteq> ''-t'') \<longrightarrow>
              ''-t'' \<notin> set (convert_cmd fstr input_file output_file (opts\<lparr>duration := Some d\<rparr>)))"
proof -
  have z: "\<not> opt_truthy num_truthy (Some d)"
    using assms by (auto simp: opt_truthy_def)
  have eq: "convert_cmd fstr input_file output_file (opts\<lparr>duration := Some d\<rparr>)
           = convert_cmd fstr input_file output_file (opts\<lparr>duration := None\<rparr>)"
    using z by (simp add: convert_cmd_segments opt_truthy_def)
  have "''-t'' \<notin> set (convert_cmd fstr input_file output_file (opts\<lparr>duration := Some d\<rparr>))"
    if h: "input_file \<noteq> ''-t''" "output_file \<noteq> ''-t''" "\<forall>f. fstr f \<noteq> ''-t''"
  proof -
    have i: "''-t'' \<noteq> input_file" "''-t'' \<noteq> output_file" and f: "\<And>f. fstr f \<noteq> ''-t''"
      using h by auto
    show ?thesis
      using z by (subst flag_membership[of "CHR ''t''", OF _ _ i f]) simp_all
  qed
  with eq show ?thesis by blast
qed

theorem zero_duration_is_unset_witness:
  "convert_cmd whole_float_str ''in.mkv'' ''out.webp''
      (demo_opts\<lparr>duration := Some (PyFloat (FFinite False 0 0))\<rparr>)
     = [''ffmpeg'', ''-i'', ''in.mkv'', ''-ss'', ''5.0'', ''-r'', ''12'',
        ''-vf'', ''scale=640:-1'', ''-quality'', ''80'', ''-loop'', ''0'', ''-y'', ''out.webp'',
        ''-loglevel'', ''error'']"
proof -
  have "convert_cmd whole_float_str ''in.mkv'' ''out.webp'' (demo_opts\<lparr>duration := None\<rparr>)
     = [''ffmpeg'', ''-i'', ''in.mkv'', ''-ss'', ''5.0'', ''-r'', ''12'',
        ''-vf'', ''scale=640:-1'', ''-quality'', ''80'', ''-loop'', ''0'', ''-y'', ''out.webp'',
        ''-loglevel'', ''error'']"
    by (simp add: convert_cmd_segments demo_opts_def whole_float_str_def convert_filters_def
        opt_truthy_def int_truthy_def str_int_def str_nat.simps digit_char_def)
  then show ?thesis
    using zero_duration_is_unset[of "PyFloat (FFinite False 0 0)" False 0
        whole_float_str "''in.mkv''" "''out.webp''" demo_opts]
    by simp
qed


section \<open>Effects of the building blocks\<close>

lemma print_simps [simp]:
  "launched (print m w) = launched w" "printed (print m w) = printed w @ [m]" "fs (print m w) = fs w"
  by (simp_all add: print_def)

lemma prints_simps [simp]:
  "launched (prints ms w) = launched w" "printed (prints ms w) = printed w @ ms" "fs (prints ms w) = fs w"
  by (simp_all add: prints_def)

lemma path_exists_print [simp]:
  "path_exists (print m w) p = path_exists w p" "path_exists (prints ms w) p = path_exists w p"
  by (simp_all add: path_exists_def)

lemma subprocess_run_trace:
  "subprocess_run rt cmd w = (p, w') \<Longrightarrow> launched w' = launched w @ [cmd] \<and> printed w' = printed w"
  by (auto simp: subprocess_run_def Let_def split: prod.splits)

lemma check_ffmpeg_trace:
  assumes "check_ffmpeg rt w = (r, w1)"
  shows "launched w1 = launched w @ [[''ffmpeg'', ''-version'']] \<and> printed w1 = printed w"
proof -
  obtain p w' where run: "subprocess_run rt [''ffmpeg'', ''-version''] w = (p, w')"
    by (cases "subprocess_run rt [''ffmpeg'', ''-version''] w")
  have "w1 = w'"
    using assms run by (auto simp: check_ffmpeg_def split: proc.splits if_splits)
  with subprocess_run_trace[OF run] show ?thesis by simp
qed

lemma getsize_exists: "path_exists w p \<Longrightarrow> \<exists>n. getsize w p = Inr n"
  by (auto simp: path_exists_def getsize_def split: option.splits node.splits)

lemma convert_except_not_success: "fst (convert_except e w) \<noteq> Inr (Some path)"
  by (simp add: convert_except_def)

text \<open>What the \<^verbatim>\<open>try\<close> block returns, by the result of the process.\<close>

lemma run_conversion_cases:
  assumes "subprocess_run rt cmd (print (Running cmd) w) = (p, w2)"
  shows "run_conversion rt cmd out w =
     (case p of
        Raised e \<Rightarrow> convert_except e w2
      | Completed rc so se \<Rightarrow>
          if rc = 0 then
            (if path_exists w2 out
             then (Inr (Some out),
                   prints [ConversionSuccessful, OutputPath out, OutputSize (projr (getsize w2 out))] w2)
             else (Inr None, print OutputNotCreated w2))
          else (Inr None, prints [FFmpegError, Stderr se] w2))"
proof (cases p)
  case (Raised e)
  then show ?thesis using assms by (simp add: run_conversion_def)
next
  case (Completed rc so se)
  show ?thesis
  proof (cases "rc = 0 \<and> path_exists w2 out")
    case True
    then obtain n where "getsize w2 out = Inr n" using getsize_exists by blast
    then show ?thesis using assms Completed True by (simp add: run_conversion_def)
  next
    case False
    then show ?thesis using assms Completed by (auto simp add: run_conversion_def)
  qed
qed

lemma convert_after_checks:
  assumes "check_ffmpeg rt w = (Inr True, w1)" "path_exists w1 input_file"
  shows "convert_mkv_to_webp rt input_file output_file opts w =
     (let out = (if \<not> opt_truthy str_truthy output_file then derive_output input_file else the output_file)
      in run_conversion rt (convert_cmd (float_str rt) input_file out opts) out
           (print (Converting input_file out) w1))"
  using assms by (simp add: convert_mkv_to_webp_def Let_def)

section \<open>No conversion without its preconditions\<close>

text \<open>
  Claim C6. When the availability check does not report the tool present, or the input
  path does not exist, the converter does not return an output path and hands no
  conversion command to \<^verbatim>\<open>subprocess.run\<close>: the only process launched is the version
  query of the availability check itself. With the tool reported missing it prints the
  not-found line and the installation hints; with the input missing it prints the
  input-not-found line.
\<close>

theorem no_conversion_without_preconditions:
  assumes "check_ffmpeg rt w = (r, w1)"
    and "r \<noteq> Inr True \<or> \<not> path_exists w1 input_file"
  shows "(\<forall>path. fst (convert_mkv_to_webp rt input_file output_file opts w) \<noteq> Inr (Some path))
     \<and> launched (snd (convert_mkv_to_webp rt input_file output_file opts w))
         = launched w @ [[''ffmpeg'', ''-version'']]
     \<and> (r = Inr False \<longrightarrow>
          fst (convert_mkv_to_webp rt input_file output_file opts w) = Inr None
          \<and> printed (snd (convert_mkv_to_webp rt input_file output_file opts w))
              = printed w @ [FFmpegNotFound, InstallHint 0, InstallHint 1, InstallHint 2,
                             InstallHint 3, InstallHint 4])
     \<and> (r = Inr True \<longrightarrow>
          fst (convert_mkv_to_webp rt input_file output_file opts w) = Inr None
          \<and> printed (snd (convert_mkv_to_webp rt input_file output_file opts w))
              = printed w @ [InputNotFound input_file])"
proof -
  note t = check_ffmpeg_trace[OF assms(1)]
  show ?thesis
  proof (cases r)
    case (Inl e)
    then show ?thesis using assms(1) t by (simp add: convert_mkv_to_webp_def)
  next
    case (Inr available)
    show ?thesis
    proof (cases available)
      case True
      with Inr assms(2) have "\<not> path_exists w1 input_file" by simp
      then show ?thesis
        using assms(1) t Inr True by (simp add: convert_mkv_to_webp_def)
    next
      case False
      then show ?thesis
        using assms(1) t Inr by (simp add: convert_mkv_to_webp_def install_ffmpeg_suggestion_def)
    qed
  qed
qed

lemma pair_of_fst: "fst x = a \<Longrightarrow> x = (a, snd x)"
  by (cases x) simp

lemma check_missing: "check_ffmpeg (demo_runtime tool_missing d) w = (Inr False, w\<lparr>launched := launched w @ [[''ffmpeg'', ''-version'']], fs := fs w\<rparr>)"
  by (simp add: check_ffmpeg_def subprocess_run_def demo_runtime_def tool_missing_def Let_def)

lemma check_silent: "fst (check_ffmpeg (demo_runtime tool_silent d) w) = Inr True"
  by (simp add: check_ffmpeg_def subprocess_run_def demo_runtime_def tool_silent_def Let_def)

lemma check_silent_fs: "fs (snd (check_ffmpeg (demo_runtime tool_silent d) w)) = fs w"
  by (simp add: check_ffmpeg_def subprocess_run_def demo_runtime_def tool_silent_def Let_def)

theorem no_conversion_without_preconditions_witness:
  "fst (convert_mkv_to_webp (demo_runtime tool_missing JNull) ''clip.mkv'' None demo_opts demo_world)
      = Inr None
   \<and> launched (snd (convert_mkv_to_webp (demo_runtime tool_missing JNull) ''clip.mkv'' None
         demo_opts demo_world)) = [[''ffmpeg'', ''-version'']]
   \<and> printed (snd (convert_mkv_to_webp (demo_runtime tool_missing JNull) ''clip.mkv'' None
         demo_opts demo_world))
       = [FFmpegNotFound, InstallHint 0, InstallHint 1, InstallHint 2, InstallHint 3, InstallHint 4]
   \<and> fst (convert_mkv_to_webp (demo_runtime tool_silent JNull) ''gone.mkv'' None demo_opts demo_world)
      = Inr None
   \<and> launched (snd (convert_mkv_to_webp (demo_runtime tool_silent JNull) ''gone.mkv'' None
         demo_opts demo_world)) = [[''ffmpeg'', ''-version'']]
   \<and> printed (snd (convert_mkv_to_webp (demo_runtime tool_silent JNull) ''gone.mkv'' None
         demo_opts demo_world)) = [InputNotFound ''gone.mkv'']"
proof -
  have e: "launched demo_world = []" "printed demo_world = []"
    by (simp_all add: demo_world_def)
  have a: "(Inr False :: exn + bool) \<noteq> Inr True \<or> \<not> path_exists w1 ''clip.mkv''" for w1
    by simp
  note m = no_conversion_without_preconditions[where output_file = None and opts = demo_opts,
      OF check_missing[of JNull demo_world] a]
  have c: "check_ffmpeg (demo_runtime tool_silent JNull) demo_world
      = (Inr True, snd (check_ffmpeg (demo_runtime tool_silent JNull) demo_world))"
    using check_silent by (rule pair_of_fst)
  have "\<not> path_exists (snd (check_ffmpeg (demo_runtime tool_silent JNull) demo_world)) ''gone.mkv''"
    by (simp add: path_exists_def check_silent_fs demo_world_def)
  then have b: "(Inr True :: exn + bool) \<noteq> Inr True
      \<or> \<not> path_exists (snd (check_ffmpeg (demo_runtime tool_silent JNull) demo_world)) ''gone.mkv''"
    by simp
  note s = no_conversion_without_preconditions[where output_file = None and opts = demo_opts,
      OF c b]
  show ?thesis using m s by (simp add: e)
qed

section \<open>Success needs exit code zero and the output file\<close>

text \<open>
  Claim C4. Once the tool is available and the input exists, the converter returns an
  output path iff the conversion process exits with code zero and the output path
  exists afterwards; the path returned is the output path. When the process exits with
  code zero and the output path does not exist, the result is a failure with the
  message that the output file was not created.
\<close>

theorem success_iff_exit_zero_and_output:
  assumes "check_ffmpeg rt w = (Inr True, w1)" and "path_exists w1 input_file"
    and "out = (if opt_truthy str_truthy output_file then the output_file
                else derive_output input_file)"
    and "cmd = convert_cmd (float_str rt) input_file out opts"
    and "subprocess_run rt cmd (print (Running cmd) (print (Converting input_file out) w1)) = (p, w2)"
  shows "((\<exists>path. fst (convert_mkv_to_webp rt input_file output_file opts w) = Inr (Some path))
            \<longleftrightarrow> (\<exists>so se. p = Completed 0 so se) \<and> path_exists w2 out)
     \<and> (\<forall>path. fst (convert_mkv_to_webp rt input_file output_file opts w) = Inr (Some path)
            \<longrightarrow> path = out)
     \<and> ((\<exists>so se. p = Completed 0 so se) \<and> \<not> path_exists w2 out \<longrightarrow>
            convert_mkv_to_webp rt input_file output_file opts w
              = (Inr None, print OutputNotCreated w2))"
proof -
  have c: "convert_mkv_to_webp rt input_file output_file opts w
             = run_conversion rt cmd out (print (Converting input_file out) w1)"
    using convert_after_checks[OF assms(1,2), of output_file opts] assms(3,4)
    by (simp add: Let_def)
  note r = run_conversion_cases[OF assms(5), of out]
  show ?thesis
  proof (cases p)
    case (Raised e)
    then show ?thesis unfolding c r by (simp add: convert_except_def)
  next
    case (Completed rc so se)
    then show ?thesis unfolding c r by auto
  qed
qed


lemma derive_clip: "derive_output ''clip.mkv'' = ''clip_algorithm_viz.webp''"
  by (simp add: derive_output_def splitext_def rfind_def nondot_before.simps)

lemma demo_cmd:
  "convert_cmd (float_str (demo_runtime b d)) ''clip.mkv'' ''clip_algorithm_viz.webp'' demo_opts
     = [''ffmpeg'', ''-i'', ''clip.mkv'', ''-ss'', ''5.0'', ''-t'', ''3.0'', ''-r'', ''12'',
        ''-vf'', ''scale=640:-1'', ''-quality'', ''80'', ''-loop'', ''0'',
        ''-y'', ''clip_algorithm_viz.webp'', ''-loglevel'', ''error'']"
  by (simp add: convert_cmd_segments demo_runtime_def demo_opts_def whole_float_str_def
      convert_filters_def opt_truthy_def int_truthy_def str_int_def str_nat.simps digit_char_def)

lemma check_writes: "fst (check_ffmpeg (demo_runtime tool_writes d) w) = Inr True"
  by (simp add: check_ffmpeg_def subprocess_run_def demo_runtime_def tool_writes_def Let_def)

lemma check_writes_fs: "fs (snd (check_ffmpeg (demo_runtime tool_writes d) w)) = fs w"
  by (simp add: check_ffmpeg_def subprocess_run_def demo_runtime_def tool_writes_def Let_def)

lemma run_silent:
  "fst (subprocess_run (demo_runtime tool_silent d) cmd w) = Completed 0 [] []"
  "fs (snd (subprocess_run (demo_runtime tool_silent d) cmd w)) = fs w"
  by (simp_all add: subprocess_run_def demo_runtime_def tool_silent_def Let_def)

lemma run_writes:
  "fst (subprocess_run (demo_runtime tool_writes d) cmd w) = Completed 0 [] []"
  "flag_value ''-y'' cmd = Some out \<Longrightarrow>
     fs (snd (subprocess_run (demo_runtime tool_writes d) cmd w)) = (fs w)(out \<mapsto> File 1000)"
  by (simp_all add: subprocess_run_def demo_runtime_def tool_writes_def Let_def)


theorem success_iff_exit_zero_and_output_witness:
  "fst (convert_mkv_to_webp (demo_runtime tool_silent JNull) ''clip.mkv'' None demo_opts demo_world)
      = Inr None
   \<and> last (printed (snd (convert_mkv_to_webp (demo_runtime tool_silent JNull) ''clip.mkv'' None
        demo_opts demo_world))) = OutputNotCreated
   \<and> fst (convert_mkv_to_webp (demo_runtime tool_writes JNull) ''clip.mkv'' None demo_opts demo_world)
      = Inr (Some ''clip_algorithm_viz.webp'')"
proof -
  let ?out = "''clip_algorithm_viz.webp''"
  have o: "?out = (if opt_truthy str_truthy None then the None else derive_output ''clip.mkv'')"
    by (simp add: opt_truthy_def derive_clip)
  have silent: "convert_mkv_to_webp (demo_runtime tool_silent JNull) ''clip.mkv'' None demo_opts demo_world
      = (Inr None, print OutputNotCreated
           (snd (subprocess_run (demo_runtime tool_silent JNull)
              (convert_cmd (float_str (demo_runtime tool_silent JNull)) ''clip.mkv'' ?out demo_opts)
              (print (Running (convert_cmd (float_str (demo_runtime tool_silent JNull)) ''clip.mkv'' ?out demo_opts))
                 (print (Converting ''clip.mkv'' ?out)
                    (snd (check_ffmpeg (demo_runtime tool_silent JNull) demo_world)))))))"
  proof -
    let ?rt = "demo_runtime tool_silent JNull"
    let ?w1 = "snd (check_ffmpeg ?rt demo_world)"
    let ?cmd = "convert_cmd (float_str ?rt) ''clip.mkv'' ?out demo_opts"
    let ?run = "subprocess_run ?rt ?cmd (print (Running ?cmd) (print (Converting ''clip.mkv'' ?out) ?w1))"
    have c: "check_ffmpeg ?rt demo_world = (Inr True, ?w1)"
      using check_silent by (rule pair_of_fst)
    have i: "path_exists ?w1 ''clip.mkv''"
      by (simp add: path_exists_def check_silent_fs demo_world_def)
    have r: "?run = (fst ?run, snd ?run)" by simp
    have n: "\<not> path_exists (snd ?run) ?out"
      by (simp add: path_exists_def run_silent check_silent_fs demo_world_def)
    have z: "\<exists>so se. fst ?run = Completed 0 so se"
      by (simp add: run_silent)
    note t = success_iff_exit_zero_and_output[OF c i o refl r]
    show ?thesis using t n z by blast
  qed
  have writes: "fst (convert_mkv_to_webp (demo_runtime tool_writes JNull) ''clip.mkv'' None demo_opts demo_world)
      = Inr (Some ?out)"
  proof -
    let ?rt = "demo_runtime tool_writes JNull"
    let ?w1 = "snd (check_ffmpeg ?rt demo_world)"
    let ?cmd = "convert_cmd (float_str ?rt) ''clip.mkv'' ?out demo_opts"
    let ?run = "subprocess_run ?rt ?cmd (print (Running ?cmd) (print (Converting ''clip.mkv'' ?out) ?w1))"
    have c: "check_ffmpeg ?rt demo_world = (Inr True, ?w1)"
      using check_writes by (rule pair_of_fst)
    have i: "path_exists ?w1 ''clip.mkv''"
      by (simp add: path_exists_def check_writes_fs demo_world_def)
    have r: "?run = (fst ?run, snd ?run)" by simp
    have y: "flag_value ''-y'' ?cmd = Some ?out"
      unfolding demo_cmd by simp
    have n: "path_exists (snd ?run) ?out"
      unfolding path_exists_def run_writes(2)[OF y] by simp
    have z: "\<exists>so se. fst ?run = Completed 0 so se"
      unfolding run_writes(1) by simp
    note t = success_iff_exit_zero_and_output[OF c i o refl r]
    show ?thesis using t n z by blast
  qed
  show ?thesis unfolding silent using writes by simp
qed


section \<open>Info-only mode on a path that is not a file\<close>

lemma isfile_prints [simp]: "isfile (prints ms w) p = isfile w p" "isfile (print m w) p = isfile w p"
  by (simp_all add: isfile_def)

text \<open>
  Claim C9 says that info-only mode on a path that is not a file exits with a non-zero
  status. On the directory \<^verbatim>\<open>videos\<close> the script runs to its end: the exit status is 0.
\<close>

theorem info_mode_exit_status_counterexample:
  "arg_info demo_args \<and> isdir demo_world (arg_input demo_args)
   \<and> \<not> isfile demo_world (arg_input demo_args)
   \<and> fst (script (demo_runtime tool_silent JNull) (Some demo_args) demo_world) = Exit 0"
  by (simp add: script_def main_def demo_args_def demo_world_def isfile_def isdir_def Let_def)

text \<open>
  Claim C9, amended. In info-only mode, if the input path is not an existing file,
  \<^verbatim>\<open>main\<close> prints the line asking for a video file and returns; no process is
  launched, so the probe is not invoked; and the script exits with status 0.
\<close>

theorem info_mode_needs_file:
  assumes "arg_info a" and "\<not> isfile w (arg_input a)"
  shows "main rt a w = (Returned, print InfoNeedsFile w)
     \<and> fst (script rt (Some a) w) = Exit 0
     \<and> printed (snd (script rt (Some a) w)) = printed w @ [Banner, BannerRule, InfoNeedsFile]
     \<and> launched (snd (script rt (Some a) w)) = launched w"
  using assms by (simp add: script_def main_def Let_def)

theorem info_mode_needs_file_witness:
  "main (demo_runtime tool_silent JNull) demo_args demo_world
      = (Returned, print InfoNeedsFile demo_world)
   \<and> printed (snd (script (demo_runtime tool_silent JNull) (Some demo_args) demo_world))
      = [Banner, BannerRule, InfoNeedsFile]
   \<and> launched (snd (script (demo_runtime tool_silent JNull) (Some demo_args) demo_world)) = []"
proof -
  have a: "arg_info demo_args" by (simp add: demo_args_def)
  have b: "\<not> isfile demo_world (arg_input demo_args)"
    by (simp add: demo_args_def demo_world_def isfile_def)
  have e: "printed demo_world = []" "launched demo_world = []"
    by (simp_all add: demo_world_def)
  show ?thesis
    using info_mode_needs_file[OF a b, of "demo_runtime tool_silent JNull"] by (simp add: e)
qed

section \<open>The frame rate is evaluated\<close>




lemma split_slash_pair: "CHR ''/'' \<notin> set a \<Longrightarrow> split_slash (a @ ''/'' @ b) = Some (a, b)"
proof -
  assume n: "CHR ''/'' \<notin> set a"
  then have "takeWhile (\<lambda>c. c \<noteq> CHR ''/'') (a @ ''/'' @ b) = a"
    by (induction a) auto
  moreover from n have "dropWhile (\<lambda>c. c \<noteq> CHR ''/'') (a @ ''/'' @ b) = ''/'' @ b"
    by (induction a) auto
  ultimately show ?thesis by (simp add: split_slash_def)
qed


lemma int_literal_with_slash: "int_literal (a @ ''/'' @ b) = None"
  by (simp add: int_literal_def is_digit_def)

lemma bit_length_54: "bit_length 9007199254740993 = 54"
  by (simp add: bit_length.simps)

text \<open>\<^verbatim>\<open>float(2**53 + 1)\<close> is \<open>2^53\<close>: the tie goes to the even mantissa.\<close>

lemma py_float_rounds:
  "py_float rt (JNum (PyInt 9007199254740993)) = Inr (FFinite False 4503599627370496 1)"
proof -
  have d: "nearest_double 9007199254740993 = (4503599627370496, 1)"
    by (simp add: nearest_double_def bit_length_54 Let_def)
  show ?thesis
    by (simp add: py_float_def d)
qed

lemma digits_val_snoc: "digits_val (s @ [c]) = 10 * digits_val s + digit_val c"
  by (simp add: digits_val_def)

lemma digits_val_zeros: "digits_val (s @ replicate k CHR ''0'') = digits_val s * 10 ^ k"
proof (induction k)
  case 0 show ?case by simp
next
  case (Suc k)
  have "s @ replicate (Suc k) CHR ''0'' = (s @ replicate k CHR ''0'') @ ''0''"
    by (simp add: replicate_append_same)
  then have "digits_val (s @ replicate (Suc k) CHR ''0'')
               = 10 * digits_val (s @ replicate k CHR ''0'') + digit_val CHR ''0''"
    by (simp only: digits_val_snoc)
  then show ?case using Suc by (simp add: digit_val_def)
qed

text \<open>A numerator of 401 digits over 1: the division raises, nothing is evaluated to a value.\<close>

lemma long_numerator_overflows:
  "py_eval ((''1'' @ replicate 400 CHR ''0'') @ ''/'' @ ''1'') = EvalRaises OverflowError"
proof -
  have a: "int_literal (''1'' @ replicate 400 CHR ''0'') = Some (10 ^ 400)"
    using digits_val_zeros[of "''1''" 400]
    by (simp add: int_literal_def is_digit_def list_all_iff digits_val_def digit_val_def)
  have b: "int_literal ''1'' = Some 1"
    by (simp add: int_literal_def is_digit_def digits_val_def digit_val_def)
  have n: "CHR ''/'' \<notin> set (''1'' @ replicate 400 CHR ''0'')" by simp
  have sp: "split_slash ((''1'' @ replicate 400 CHR ''0'') @ ''/'' @ ''1'')
              = Some (''1'' @ replicate 400 CHR ''0'', ''1'')"
    using n by (rule split_slash_pair)
  have o: "quotient_overflows (10 ^ 400) 1"
    by (simp add: quotient_overflows_def)
  show ?thesis
    unfolding py_eval_def int_literal_with_slash sp using a b o by simp
qed







section \<open>The batch goes through every entry\<close>

lemma item_headers_append [simp]: "item_headers (a @ b) = item_headers a @ item_headers b"
  by (simp add: item_headers_def)

lemma successes_append [simp]: "successes (a @ b) = successes a + successes b"
  by (simp add: successes_def)

lemma item_headers_simps [simp]:
  "item_headers [] = []"
  "item_headers (ItemHeader f # ms) = f # item_headers ms"
  by (simp_all add: item_headers_def)

lemma successes_Nil [simp]: "successes [] = 0"
  by (simp add: successes_def)

lemma effective_output_nonempty:
  "(if \<not> opt_truthy str_truthy output_file then derive_output input_file else the output_file) \<noteq> []"
  by (cases output_file) (auto simp: opt_truthy_def str_truthy_def derive_output_def Let_def)

lemma run_conversion_messages:
  assumes "run_conversion rt cmd out w = (Inr r, w')" and "out \<noteq> []"
  shows "item_headers (printed w') = item_headers (printed w)
     \<and> successes (printed w') = successes (printed w) + (if opt_truthy str_truthy r then 1 else 0)"
proof -
  obtain p w2 where run: "subprocess_run rt cmd (print (Running cmd) w) = (p, w2)"
    by (cases "subprocess_run rt cmd (print (Running cmd) w)")
  have pr: "printed w2 = printed w @ [Running cmd]"
    using subprocess_run_trace[OF run] by simp
  note c = run_conversion_cases[OF run, of out]
  show ?thesis
  proof (cases p)
    case (Raised e)
    then show ?thesis
      using assms c pr
      by (auto simp: convert_except_def item_headers_def successes_def opt_truthy_def split: if_splits)
  next
    case (Completed rc so se)
    then show ?thesis
      using assms c pr
      by (auto simp: item_headers_def successes_def opt_truthy_def str_truthy_def split: if_splits)
  qed
qed

lemma convert_messages:
  assumes "convert_mkv_to_webp rt input_file output_file opts w = (Inr r, w')"
  shows "item_headers (printed w') = item_headers (printed w)
     \<and> successes (printed w') = successes (printed w) + (if opt_truthy str_truthy r then 1 else 0)"
proof -
  obtain c w1 where chk: "check_ffmpeg rt w = (c, w1)"
    by (cases "check_ffmpeg rt w")
  have pr: "printed w1 = printed w" using check_ffmpeg_trace[OF chk] by simp
  show ?thesis
  proof (cases "c = Inr True \<and> path_exists w1 input_file")
    case True
    then have chk': "check_ffmpeg rt w = (Inr True, w1)" using chk by simp
    define out where "out = (if \<not> opt_truthy str_truthy output_file then derive_output input_file
                             else the output_file)"
    have ne: "out \<noteq> []" unfolding out_def by (rule effective_output_nonempty)
    have "run_conversion rt (convert_cmd (float_str rt) input_file out opts) out
            (print (Converting input_file out) w1) = (Inr r, w')"
      using convert_after_checks[OF chk', of input_file output_file opts] True assms
      by (simp add: Let_def out_def)
    from run_conversion_messages[OF this ne] show ?thesis
      by (simp add: pr item_headers_def successes_def)
  next
    case False
    then show ?thesis
      using assms chk pr
      by (cases c)
         (auto simp: convert_mkv_to_webp_def install_ffmpeg_suggestion_def item_headers_def
            successes_def opt_truthy_def split: if_splits)
  qed
qed

lemma version_queries_append [simp]:
  "version_queries (a @ b) = version_queries a + version_queries b"
  by (simp add: version_queries_def)

lemma convert_cmd_not_version [simp]:
  "convert_cmd fstr i out opts \<noteq> [''ffmpeg'', ''-version'']"
  by (simp add: convert_cmd_segments)

lemma version_queries_simps [simp]:
  "version_queries [] = 0"
  "version_queries (c # cs) = (if c = [''ffmpeg'', ''-version''] then 1 else 0) + version_queries cs"
  by (simp_all add: version_queries_def)

lemma convert_except_launched: "launched (snd (convert_except e w)) = launched w"
  by (simp add: convert_except_def)

lemma run_conversion_launched:
  "launched (snd (run_conversion rt cmd out w)) = launched w @ [cmd]"
proof -
  obtain p w2 where run: "subprocess_run rt cmd (print (Running cmd) w) = (p, w2)"
    by (cases "subprocess_run rt cmd (print (Running cmd) w)")
  have l: "launched w2 = launched w @ [cmd]"
    using subprocess_run_trace[OF run] by simp
  show ?thesis
    unfolding run_conversion_cases[OF run, of out] using l
    by (cases p) (simp_all add: convert_except_def)
qed

text \<open>Every call of the converter makes exactly one version query.\<close>

lemma convert_version_queries:
  "version_queries (launched (snd (convert_mkv_to_webp rt input_file output_file opts w)))
     = version_queries (launched w) + 1"
proof -
  obtain c w1 where chk: "check_ffmpeg rt w = (c, w1)"
    by (cases "check_ffmpeg rt w")
  have l: "launched w1 = launched w @ [[''ffmpeg'', ''-version'']]"
    using check_ffmpeg_trace[OF chk] by simp
  show ?thesis
  proof (cases "c = Inr True \<and> path_exists w1 input_file")
    case True
    then have chk': "check_ffmpeg rt w = (Inr True, w1)" using chk by simp
    show ?thesis
      unfolding convert_after_checks[OF chk' conjunct2[OF True]]
      by (simp add: Let_def run_conversion_launched l)
  next
    case False
    then show ?thesis
      using chk l
      by (cases c) (auto simp: convert_mkv_to_webp_def install_ffmpeg_suggestion_def)
  qed
qed

lemma convert_unavailable:
  assumes "fst (check_ffmpeg rt w) = Inr False"
  shows "\<exists>w'. convert_mkv_to_webp rt input_file output_file opts w = (Inr None, w')"
proof -
  obtain w1 where "check_ffmpeg rt w = (Inr False, w1)"
    using assms by (cases "check_ffmpeg rt w") auto
  then show ?thesis by (simp add: convert_mkv_to_webp_def)
qed

text \<open>The converter returns whenever the tool raises nothing that escapes it.\<close>

lemma convert_returns:
  assumes "\<And>v c e f. run_process rt v c = (Raised e, f) \<Longrightarrow>
             e \<noteq> KeyboardInterrupt \<and> (c = [''ffmpeg'', ''-version''] \<longrightarrow> e = FileNotFoundError)"
  shows "\<exists>r w'. convert_mkv_to_webp rt input_file output_file opts w = (Inr r, w')"
proof -
  have sub: "subprocess_run rt c v = (Raised e, v') \<Longrightarrow>
      e \<noteq> KeyboardInterrupt \<and> (c = [''ffmpeg'', ''-version''] \<longrightarrow> e = FileNotFoundError)" for c v e v'
    using assms[of "v\<lparr>launched := launched v @ [c]\<rparr>" c e]
    by (auto simp: subprocess_run_def Let_def split: prod.splits)
  obtain p v1 where q: "subprocess_run rt [''ffmpeg'', ''-version''] w = (p, v1)"
    by (cases "subprocess_run rt [''ffmpeg'', ''-version''] w")
  have chk: "\<exists>b. check_ffmpeg rt w = (Inr b, v1)"
    using q sub[of "[''ffmpeg'', ''-version'']" w _ v1]
    by (cases p) (auto simp: check_ffmpeg_def)
  then obtain b where chk: "check_ffmpeg rt w = (Inr b, v1)" by blast
  have run: "\<exists>r w'. run_conversion rt cmd out v = (Inr r, w')" for cmd out v
  proof -
    obtain p2 v2 where r: "subprocess_run rt cmd (print (Running cmd) v) = (p2, v2)"
      by (cases "subprocess_run rt cmd (print (Running cmd) v)")
    show ?thesis
      unfolding run_conversion_cases[OF r, of out]
      using sub[of cmd "print (Running cmd) v" _ v2] r
      by (cases p2) (auto simp: convert_except_def is_Exception_def)
  qed
  show ?thesis
    using chk run by (auto simp: convert_mkv_to_webp_def Let_def)
qed

lemma batch_loop_runs_all:
  assumes returns: "\<forall>input_path output_path v. \<exists>r v'.
      convert_mkv_to_webp rt input_path output_path opts v = (Inr r, v')"
  shows "\<exists>k w'. batch_loop rt input_dir output_dir opts files c w = (Inr k, w')
       \<and> item_headers (printed w') = item_headers (printed w) @ files
       \<and> version_queries (launched w') = version_queries (launched w) + length files
       \<and> successes (printed w') + c = successes (printed w) + k
       \<and> c \<le> k \<and> k \<le> c + length files"
proof (induction files arbitrary: c w)
  case Nil
  show ?case by simp
next
  case (Cons f rest)
  let ?w1 = "print (ItemHeader f) w"
  obtain r w2 where cv: "convert_mkv_to_webp rt (path_join input_dir f)
      (Some (path_join output_dir (batch_output_name f))) opts ?w1 = (Inr r, w2)"
    using returns by blast
  note m = convert_messages[OF cv]
  have q: "version_queries (launched w2) = version_queries (launched w) + 1"
    using convert_version_queries[of rt "path_join input_dir f"
        "Some (path_join output_dir (batch_output_name f))" opts ?w1] cv by simp
  let ?c' = "if opt_truthy str_truthy r then c + 1 else c"
  obtain k w' where ih: "batch_loop rt input_dir output_dir opts rest ?c' w2 = (Inr k, w')"
      "item_headers (printed w') = item_headers (printed w2) @ rest"
      "version_queries (launched w') = version_queries (launched w2) + length rest"
      "successes (printed w') + ?c' = successes (printed w2) + k"
      "?c' \<le> k" "k \<le> ?c' + length rest"
    using Cons.IH[of ?c' w2] by blast
  have step: "batch_loop rt input_dir output_dir opts (f # rest) c w = (Inr k, w')"
    using cv ih(1) by (simp add: Let_def)
  have h: "item_headers (printed w') = item_headers (printed w) @ f # rest"
    using ih(2) m by (simp add: item_headers_def)
  have v: "version_queries (launched w') = version_queries (launched w) + length (f # rest)"
    using ih(3) q by simp
  have s: "successes (printed w') + c = successes (printed w) + k"
    using ih(4) m by (simp add: successes_def split: if_splits)
  have b: "c \<le> k \<and> k \<le> c + length (f # rest)"
    using ih(5,6) by (simp split: if_splits)
  show ?case using step h v s b by blast
qed

lemma batch_loop_all_fail:
  assumes "\<forall>input_path output_path v. \<exists>v'.
      convert_mkv_to_webp rt input_path output_path opts v = (Inr None, v')"
  shows "\<exists>w'. batch_loop rt input_dir output_dir opts files c w = (Inr c, w')"
proof (induction files arbitrary: w)
  case Nil
  show ?case by simp
next
  case (Cons f rest)
  obtain w2 where cv: "convert_mkv_to_webp rt (path_join input_dir f)
      (Some (path_join output_dir (batch_output_name f))) opts (print (ItemHeader f) w) = (Inr None, w2)"
    using assms by blast
  show ?case using cv Cons.IH[of w2] by (simp add: Let_def opt_truthy_def)
qed

text \<open>
  As long as every call of the converter returns, with a path or with a failure, the
  batch goes through all matching entries in order: one header and one call of the
  converter (one version query) per entry, then the report \<open>k\<close> out of \<open>N\<close>, where
  \<open>N\<close> is the number of matching entries and \<open>k\<close> the number of conversions that
  succeeded; \<open>k\<close> is 0 when every call fails.
\<close>

lemma batch_completes_when_calls_return:
  assumes dir: "isdir w input_dir"
    and out: "output_dir' = (if opt_truthy str_truthy output_dir then the output_dir else input_dir)"
    and mk: "makedirs rt (fs w) output_dir' = Inr fs'"
    and ls: "listdir (w\<lparr>fs := fs'\<rparr>) input_dir = Inr names"
    and files: "mkv_files = filter (\<lambda>f. endswith (str_lower rt f) ''.mkv'') names" "mkv_files \<noteq> []"
    and returns: "\<forall>input_path output_path v. \<exists>r v'.
      convert_mkv_to_webp rt input_path output_path opts v = (Inr r, v')"
  shows "\<exists>k w'. batch_convert rt input_dir output_dir opts w = (Inr (), w')
       \<and> item_headers (printed w') = item_headers (printed w) @ mkv_files
       \<and> version_queries (launched w') = version_queries (launched w) + length mkv_files
       \<and> last (printed w') = Converted k (length mkv_files)
       \<and> successes (printed w') = successes (printed w) + k
       \<and> k \<le> length mkv_files
       \<and> ((\<forall>input_path output_path v. \<exists>v'.
              convert_mkv_to_webp rt input_path output_path opts v = (Inr None, v')) \<longrightarrow> k = 0)"
proof -
  let ?w1 = "w\<lparr>fs := fs'\<rparr>"
  let ?w2 = "print (FoundFiles (length mkv_files)) ?w1"
  obtain k w3 where loop: "batch_loop rt input_dir output_dir' opts mkv_files 0 ?w2 = (Inr k, w3)"
      "item_headers (printed w3) = item_headers (printed ?w2) @ mkv_files"
      "version_queries (launched w3) = version_queries (launched ?w2) + length mkv_files"
      "successes (printed w3) + 0 = successes (printed ?w2) + k"
      "k \<le> 0 + length mkv_files"
    using batch_loop_runs_all[OF returns, of input_dir output_dir' mkv_files 0 ?w2] by blast
  have bc: "batch_convert rt input_dir output_dir opts w
              = (Inr (), print (Converted k (length mkv_files)) w3)"
  proof (cases "opt_truthy str_truthy output_dir")
    case True
    then have "output_dir' = the output_dir" using out by simp
    then show ?thesis
      using True dir mk ls files loop(1) by (simp add: batch_convert_def Let_def)
  next
    case False
    then have "output_dir' = input_dir" using out by simp
    then show ?thesis
      using False dir mk ls files loop(1) by (simp add: batch_convert_def Let_def)
  qed
  have h: "item_headers (printed (print (Converted k (length mkv_files)) w3))
             = item_headers (printed w) @ mkv_files"
    using loop(2) by (simp add: item_headers_def)
  have q: "version_queries (launched (print (Converted k (length mkv_files)) w3))
             = version_queries (launched w) + length mkv_files"
    using loop(3) by simp
  have s: "successes (printed (print (Converted k (length mkv_files)) w3)) = successes (printed w) + k"
    using loop(4) by (simp add: successes_def)
  have z: "k = 0" if "\<forall>input_path output_path v. \<exists>v'.
              convert_mkv_to_webp rt input_path output_path opts v = (Inr None, v')"
    using batch_loop_all_fail[OF that, of input_dir output_dir' mkv_files 0 ?w2] loop(1)
    by simp
  show ?thesis
    using bc h q s z loop(5)
    by (intro exI[of _ k] exI[of _ "print (Converted k (length mkv_files)) w3"]) simp
qed

lemma demo_mkv_files:
  "filter (\<lambda>f. endswith (str_lower (demo_runtime t d) f) ''.mkv'')
       [''a.mkv'', ''notes.txt'', ''B.MKV'']
     = [''a.mkv'', ''B.MKV'']"
  by (simp add: demo_runtime_def endswith_def ascii_lower_def ascii_lower_char_def)

lemma demo_listing:
  "isdir demo_world ''videos''"
  "makedirs (demo_runtime t d) (fs demo_world) ''videos'' = Inr (fs demo_world)"
  "listdir (demo_world\<lparr>fs := fs demo_world\<rparr>) ''videos'' = Inr [''a.mkv'', ''notes.txt'', ''B.MKV'']"
  "listdir demo_world ''videos'' = Inr [''a.mkv'', ''notes.txt'', ''B.MKV'']"
  by (simp_all add: isdir_def listdir_def demo_runtime_def demo_world_def)

lemma check_denied:
  "check_ffmpeg (demo_runtime tool_denied d) w
     = (Inl PermissionError, w\<lparr>launched := launched w @ [[''ffmpeg'', ''-version'']], fs := fs w\<rparr>)"
  by (simp add: check_ffmpeg_def subprocess_run_def demo_runtime_def tool_denied_def Let_def)

lemma demo_endswith:
  "endswith (str_lower (demo_runtime t d) ''a.mkv'') ''.mkv''"
  "\<not> endswith (str_lower (demo_runtime t d) ''notes.txt'') ''.mkv''"
  "endswith (str_lower (demo_runtime t d) ''B.MKV'') ''.mkv''"
  by (simp_all add: demo_runtime_def endswith_def ascii_lower_def ascii_lower_char_def)

lemma check_refuses:
  "check_ffmpeg (demo_runtime tool_refuses_conversion d) w
     = (Inr True, w\<lparr>launched := launched w @ [[''ffmpeg'', ''-version'']], fs := fs w\<rparr>)"
  by (simp add: check_ffmpeg_def subprocess_run_def demo_runtime_def tool_refuses_conversion_def
      Let_def)

lemma run_refuses:
  "cmd \<noteq> [''ffmpeg'', ''-version''] \<Longrightarrow>
     fst (subprocess_run (demo_runtime tool_refuses_conversion d) cmd w) = Raised PermissionError"
  by (simp add: subprocess_run_def demo_runtime_def tool_refuses_conversion_def Let_def)

lemma convert_refused:
  "\<exists>v'. convert_mkv_to_webp (demo_runtime tool_refuses_conversion d) input_file output_file opts v
          = (Inr None, v')"
proof -
  let ?rt = "demo_runtime tool_refuses_conversion d"
  have run: "\<exists>v'. run_conversion ?rt (convert_cmd fstr i out opts) out u = (Inr None, v')"
    for fstr i out u
  proof -
    let ?cmd = "convert_cmd fstr i out opts"
    obtain u2 where r: "subprocess_run ?rt ?cmd (print (Running ?cmd) u) = (Raised PermissionError, u2)"
      using run_refuses[of ?cmd d "print (Running ?cmd) u", THEN pair_of_fst] by auto
    show ?thesis
      unfolding run_conversion_cases[OF r, of out]
      by (simp add: convert_except_def is_Exception_def)
  qed
  show ?thesis
    using run by (auto simp: convert_mkv_to_webp_def check_refuses Let_def)
qed

text \<open>
  Claim C7. The failure of one item must not abort the batch: the converter is to be
  called for every matching file and the count of successes reported at the end. The
  code breaks this where the failure is a refused launch of the version query of the
  availability check: \<^verbatim>\<open>check_ffmpeg\<close> catches \<^verbatim>\<open>FileNotFoundError\<close> only, so a
  \<^verbatim>\<open>PermissionError\<close> leaves the converter at the first of the two matching entries
  and ends the loop, with one version query made, the second entry not reached and no
  count reported. The same refusal at the conversion itself is caught by the
  \<^verbatim>\<open>try\<close> block of the converter: there both entries are gone through, with two
  version queries, and the report is 0 out of 2.
\<close>

theorem batch_aborted_by_refused_version_query:
  "fst (batch_convert (demo_runtime tool_denied JNull) ''videos'' None demo_opts demo_world)
     = Inl PermissionError
   \<and> printed (snd (batch_convert (demo_runtime tool_denied JNull) ''videos'' None demo_opts
        demo_world)) = [FoundFiles 2, ItemHeader ''a.mkv'']
   \<and> launched (snd (batch_convert (demo_runtime tool_denied JNull) ''videos'' None demo_opts
        demo_world)) = [[''ffmpeg'', ''-version'']]
   \<and> fst (batch_convert (demo_runtime tool_refuses_conversion JNull) ''videos'' None demo_opts
        demo_world) = Inr ()
   \<and> item_headers (printed (snd (batch_convert (demo_runtime tool_refuses_conversion JNull)
        ''videos'' None demo_opts demo_world))) = [''a.mkv'', ''B.MKV'']
   \<and> version_queries (launched (snd (batch_convert (demo_runtime tool_refuses_conversion JNull)
        ''videos'' None demo_opts demo_world))) = 2
   \<and> last (printed (snd (batch_convert (demo_runtime tool_refuses_conversion JNull)
        ''videos'' None demo_opts demo_world))) = Converted 0 2"
proof -
  have e: "printed demo_world = []" "launched demo_world = []"
    by (simp_all add: demo_world_def)
  have denied:
    "fst (batch_convert (demo_runtime tool_denied JNull) ''videos'' None demo_opts demo_world)
       = Inl PermissionError
     \<and> printed (snd (batch_convert (demo_runtime tool_denied JNull) ''videos'' None demo_opts
          demo_world)) = [FoundFiles 2, ItemHeader ''a.mkv'']
     \<and> launched (snd (batch_convert (demo_runtime tool_denied JNull) ''videos'' None demo_opts
          demo_world)) = [[''ffmpeg'', ''-version'']]"
    by (simp add: batch_convert_def demo_listing demo_endswith opt_truthy_def Let_def
        convert_mkv_to_webp_def check_denied e)
  let ?rt = "demo_runtime tool_refuses_conversion JNull"
  have o: "''videos'' = (if opt_truthy str_truthy None then the None else ''videos'')"
    by (simp add: opt_truthy_def)
  have f: "[''a.mkv'', ''B.MKV''] = filter (\<lambda>f. endswith (str_lower ?rt f) ''.mkv'')
             [''a.mkv'', ''notes.txt'', ''B.MKV'']"
    by (rule demo_mkv_files[symmetric])
  have n: "[''a.mkv'', ''B.MKV''] \<noteq> []" by simp
  have fails: "\<forall>input_path output_path v. \<exists>v'.
      convert_mkv_to_webp ?rt input_path output_path demo_opts v = (Inr None, v')"
    using convert_refused by blast
  then have r: "\<forall>input_path output_path v. \<exists>r v'.
      convert_mkv_to_webp ?rt input_path output_path demo_opts v = (Inr r, v')"
    by blast
  obtain k w' where b: "batch_convert ?rt ''videos'' None demo_opts demo_world = (Inr (), w')"
      "item_headers (printed w') = item_headers (printed demo_world) @ [''a.mkv'', ''B.MKV'']"
      "version_queries (launched w') = version_queries (launched demo_world) + length [''a.mkv'', ''B.MKV'']"
      "last (printed w') = Converted k (length [''a.mkv'', ''B.MKV''])"
      "(\<forall>input_path output_path v. \<exists>v'.
          convert_mkv_to_webp ?rt input_path output_path demo_opts v = (Inr None, v')) \<longrightarrow> k = 0"
    using batch_completes_when_calls_return[OF demo_listing(1) o demo_listing(2) demo_listing(3) f n r]
    by blast
  have "k = 0" using b(5) fails by blast
  then have refused:
    "fst (batch_convert ?rt ''videos'' None demo_opts demo_world) = Inr ()
     \<and> item_headers (printed (snd (batch_convert ?rt ''videos'' None demo_opts demo_world)))
         = [''a.mkv'', ''B.MKV'']
     \<and> version_queries (launched (snd (batch_convert ?rt ''videos'' None demo_opts demo_world))) = 2
     \<and> last (printed (snd (batch_convert ?rt ''videos'' None demo_opts demo_world)))
         = Converted 0 2"
    using b(1,2,3,4) by (simp add: e)
  show ?thesis using denied refused by simp
qed

text \<open>
  With the tool not installed, every entry fails and the batch reports 0 out of 2.
\<close>

lemma batch_with_tool_missing:
  "fst (batch_convert (demo_runtime tool_missing JNull) ''videos'' None demo_opts demo_world)
     = Inr ()
   \<and> item_headers (printed (snd (batch_convert (demo_runtime tool_missing JNull) ''videos'' None
        demo_opts demo_world))) = [''a.mkv'', ''B.MKV'']
   \<and> version_queries (launched (snd (batch_convert (demo_runtime tool_missing JNull) ''videos''
        None demo_opts demo_world))) = 2
   \<and> last (printed (snd (batch_convert (demo_runtime tool_missing JNull) ''videos'' None
        demo_opts demo_world))) = Converted 0 2"
proof -
  let ?rt = "demo_runtime tool_missing JNull"
  have e: "printed demo_world = []" "launched demo_world = []"
    by (simp_all add: demo_world_def)
  have o: "''videos'' = (if opt_truthy str_truthy None then the None else ''videos'')"
    by (simp add: opt_truthy_def)
  have f: "[''a.mkv'', ''B.MKV''] = filter (\<lambda>f. endswith (str_lower ?rt f) ''.mkv'')
             [''a.mkv'', ''notes.txt'', ''B.MKV'']"
    by (rule demo_mkv_files[symmetric])
  have n: "[''a.mkv'', ''B.MKV''] \<noteq> []" by simp
  have u: "\<forall>v. fst (check_ffmpeg ?rt v) = Inr False"
    by (simp add: check_missing)
  have fails: "\<forall>input_path output_path v. \<exists>v'.
      convert_mkv_to_webp ?rt input_path output_path demo_opts v = (Inr None, v')"
    using convert_unavailable[of ?rt] u by blast
  then have r: "\<forall>input_path output_path v. \<exists>r v'.
      convert_mkv_to_webp ?rt input_path output_path demo_opts v = (Inr r, v')"
    by blast
  obtain k w' where b: "batch_convert ?rt ''videos'' None demo_opts demo_world = (Inr (), w')"
      "item_headers (printed w') = item_headers (printed demo_world) @ [''a.mkv'', ''B.MKV'']"
      "version_queries (launched w') = version_queries (launched demo_world) + length [''a.mkv'', ''B.MKV'']"
      "last (printed w') = Converted k (length [''a.mkv'', ''B.MKV''])"
      "(\<forall>input_path output_path v. \<exists>v'.
          convert_mkv_to_webp ?rt input_path output_path demo_opts v = (Inr None, v')) \<longrightarrow> k = 0"
    using batch_completes_when_calls_return[OF demo_listing(1) o demo_listing(2) demo_listing(3) f n r]
    by blast
  have "k = 0" using b(5) fails by blast
  then show ?thesis using b(1,2,3,4) by (simp add: e)
qed


end
